theory Spec2Isabelle
  imports Main "HOL-Library.Sublist"
begin

section \<open>Result sets, exceptions and the rendered view\<close>

text \<open>
  The dashboard is one Python script, \<open>src/streamlit/dashboard.py\<close>. It reads rows from a
  warehouse session and writes widgets to a page. A cell of a result set is NULL, an
  integer or a string; Python's \<open>str\<close> is modelled as the list of its UTF-8 bytes.
  Floating-point cells are outside this model. A row keeps its columns in order, a result
  set keeps its rows in order.
\<close>

datatype cell = CNull | CInt int | CStr string

type_synonym row = "(string \<times> cell) list"
type_synonym table = "row list"

text \<open>
  The exceptions the script can meet: the ones Python raises for \<open>xs[0]\<close>, for a missing
  field and for an unusable format specification, and whatever the warehouse raises when a
  statement fails.
\<close>

datatype exn =
    IndexError
  | KeyError string
  | TypeError
  | ValueError
  | OverflowError
  | SqlError string

text \<open>
  The session is the script's only collaborator: it maps the text of a statement to the
  rows it returns, or to the exception it raises.
\<close>

type_synonym session = "string \<Rightarrow> exn + table"

datatype widget =
    PageConfig string string
  | Title string
  | Markdown string
  | Subheader string
  | Caption string
  | Columns nat
  | Metric string cell
  | Dataframe table bool
  | Info string
  | Success string
  | Warning string
  | Error string

text \<open>
  A widget lands on the page itself, in one of the four KPI columns (line 16) or in one of
  the two drift columns (line 64).
\<close>

datatype container = Page | KpiCol nat | DriftCol nat

text \<open>
  What a render pass does, in the order it does it: statements sent to the warehouse and
  widgets written to the view. \<open>raised\<close> is the exception that ended the pass, if any.
\<close>

datatype effect = Sql string | Render container widget

record run =
  trace :: "effect list"
  raised :: "exn option"

definition start :: run where
  "start = \<lparr>trace = [], raised = None\<rparr>"

definition render :: "container \<Rightarrow> widget \<Rightarrow> run \<Rightarrow> run" where
  "render c w r = r\<lparr>trace := trace r @ [Render c w]\<rparr>"

definition raise :: "exn \<Rightarrow> run \<Rightarrow> run" where
  "raise e r = r\<lparr>raised := Some e\<rparr>"

text \<open>
  \<open>session.sql(q).collect()\<close> and \<open>session.sql(q).to_pandas()\<close>: the statement is sent, and
  either its exception ends the pass or the script goes on with the rows. The conversion to
  a data frame keeps the rows as they are.
\<close>

definition collect :: "session \<Rightarrow> string \<Rightarrow> run \<Rightarrow> (table \<Rightarrow> run \<Rightarrow> run) \<Rightarrow> run" where
  "collect sess q r k =
     (let r' = r\<lparr>trace := trace r @ [Sql q]\<rparr>
      in case sess q of Inl e \<Rightarrow> raise e r' | Inr rows \<Rightarrow> k rows r')"

definition to_pandas :: "session \<Rightarrow> string \<Rightarrow> run \<Rightarrow> (table \<Rightarrow> run \<Rightarrow> run) \<Rightarrow> run" where
  "to_pandas sess q r k =
     (let r' = r\<lparr>trace := trace r @ [Sql q]\<rparr>
      in case sess q of Inl e \<Rightarrow> raise e r' | Inr df \<Rightarrow> k df r')"

text \<open>An expression that may raise, followed by the rest of the script.\<close>

definition eval :: "exn + 'a \<Rightarrow> run \<Rightarrow> ('a \<Rightarrow> run \<Rightarrow> run) \<Rightarrow> run" where
  "eval v r k = (case v of Inl e \<Rightarrow> raise e r | Inr x \<Rightarrow> k x r)"

definition and_then :: "exn + 'a \<Rightarrow> ('a \<Rightarrow> exn + 'b) \<Rightarrow> exn + 'b" where
  "and_then v f = (case v of Inl e \<Rightarrow> Inl e | Inr x \<Rightarrow> f x)"

text \<open>Top-level statements run one after another; the first exception ends the pass.\<close>

fun in_order :: "(run \<Rightarrow> run) list \<Rightarrow> run \<Rightarrow> run" where
  "in_order [] r = r"
| "in_order (b # bs) r = (let r' = b r in if raised r' = None then in_order bs r' else r')"

section \<open>The Python expressions the script uses\<close>

text \<open>
  \<open>rows[0]\<close> and \<open>row['NAME']\<close>. A field the row does not have raises; the exception is
  called \<open>KeyError\<close> here.
\<close>

definition first_row :: "table \<Rightarrow> exn + row" where
  "first_row rows = (case rows of [] \<Rightarrow> Inl IndexError | x # _ \<Rightarrow> Inr x)"

definition getitem :: "row \<Rightarrow> string \<Rightarrow> exn + cell" where
  "getitem x name = (case map_of x name of None \<Rightarrow> Inl (KeyError name) | Some v \<Rightarrow> Inr v)"

text \<open>Decimal digits of a natural number, and Python's \<open>,\<close> grouping of a digit string.\<close>

fun digits :: "nat \<Rightarrow> string" where
  "digits n =
     (if n < 10 then [''0123456789'' ! n]
      else digits (n div 10) @ [''0123456789'' ! (n mod 10)])"

function group3 :: "string \<Rightarrow> string" where
  "group3 ds =
     (if length ds \<le> 3 then ds
      else group3 (take (length ds - 3) ds) @ '','' @ drop (length ds - 3) ds)"
  by pat_completeness auto
termination
  by (relation "measure length") auto

definition grouped :: "int \<Rightarrow> string" where
  "grouped n = (if n < 0 then ''-'' else '''') @ group3 (digits (nat \<bar>n\<bar>))"

definition decimal :: "int \<Rightarrow> string" where
  "decimal n = (if n < 0 then ''-'' else '''') @ digits (nat \<bar>n\<bar>)"

text \<open>\<open>str(x)\<close>, as an f-string field without a format specification applies it.\<close>

definition py_str :: "cell \<Rightarrow> string" where
  "py_str v = (case v of CNull \<Rightarrow> ''None'' | CInt n \<Rightarrow> decimal n | CStr s \<Rightarrow> s)"

text \<open>
  \<open>float(n)\<close> for an integer: the nearest number with a 53-bit mantissa, ties to the even
  mantissa, and OverflowError from \<open>2 ^ 1024\<close> on. The result is an integer again.
\<close>

fun bit_length :: "nat \<Rightarrow> nat" where
  "bit_length n = (if n = 0 then 0 else Suc (bit_length (n div 2)))"

definition int_to_float :: "int \<Rightarrow> exn + int" where
  "int_to_float n =
     (let a = nat \<bar>n\<bar>; bits = bit_length a
      in if bits \<le> 53 then Inr n
         else
           let sh = bits - 53;
               q = a div 2 ^ sh;
               rest = a mod 2 ^ sh;
               half = 2 ^ (sh - 1);
               q' = (if half < rest \<or> (rest = half \<and> odd q) then q + 1 else q);
               v = q' * 2 ^ sh
           in if 2 ^ 1024 \<le> v then Inl OverflowError
              else Inr (if n < 0 then - int v else int v))"

text \<open>\<open>f"{x:,}"\<close> and \<open>f"{x:,.0f}"\<close>.\<close>

definition format_comma :: "cell \<Rightarrow> exn + string" where
  "format_comma v =
     (case v of
        CNull \<Rightarrow> Inl TypeError
      | CStr s \<Rightarrow> Inl ValueError
      | CInt n \<Rightarrow> Inr (grouped n))"

definition format_comma_0f :: "cell \<Rightarrow> exn + string" where
  "format_comma_0f v =
     (case v of
        CNull \<Rightarrow> Inl TypeError
      | CStr s \<Rightarrow> Inl ValueError
      | CInt n \<Rightarrow> and_then (int_to_float n) (\<lambda>x. Inr (grouped x)))"

section \<open>The statements\<close>

text \<open>The nine literals passed to \<open>session.sql\<close>, byte for byte.\<close>

definition prod_model_sql :: string where
  "prod_model_sql =
     ''\<newline>    SELECT MODEL_VERSION, MAE, TRAINING_DATE \<newline>'' @
     ''    FROM MLOPS_PROD_DB.MODELS.MODEL_REGISTRY \<newline>'' @
     ''    WHERE STATUS = 'PRODUCTION' LIMIT 1\<newline>''"

definition raw_count_sql :: string where
  "raw_count_sql = ''SELECT COUNT(*) AS CNT FROM MLOPS_PROD_DB.RAW.RAW_SALES''"

definition feature_count_sql :: string where
  "feature_count_sql = ''SELECT COUNT(*) AS CNT FROM MLOPS_PROD_DB.FEATURES.FEATURE_STORE''"

definition model_df_sql :: string where
  "model_df_sql =
     ''\<newline>    SELECT MODEL_VERSION, MODEL_TYPE, STATUS, TRAINING_DATE, MAE, RMSE, MAPE, NOTES\<newline>'' @
     ''    FROM MLOPS_PROD_DB.MODELS.MODEL_REGISTRY\<newline>'' @
     ''    ORDER BY TRAINING_DATE DESC\<newline>'' @
     ''    LIMIT 10\<newline>''"

definition drift_df_sql :: string where
  "drift_df_sql =
     ''\<newline>        SELECT CHECK_DATE, METRIC_NAME, BASELINE_VALUE, CURRENT_VALUE, DRIFT_SCORE, DRIFT_STATUS\<newline>'' @
     ''        FROM MLOPS_PROD_DB.MONITORING.DRIFT_METRICS\<newline>'' @
     ''        ORDER BY CHECK_DATE DESC\<newline>'' @
     ''        LIMIT 10\<newline>'' @
     ''    ''"

definition latest_drift_sql :: string where
  "latest_drift_sql =
     ''\<newline>        SELECT DRIFT_STATUS FROM MLOPS_PROD_DB.MONITORING.DRIFT_METRICS \<newline>'' @
     ''        WHERE METRIC_NAME = 'Y_MEAN'\<newline>'' @
     ''        ORDER BY CHECK_DATE DESC LIMIT 1\<newline>'' @
     ''    ''"

definition comparison_df_sql :: string where
  "comparison_df_sql =
     ''\<newline>    SELECT COMPARISON_DATE, PRODUCTION_MODEL_VERSION, CANDIDATE_MODEL_VERSION,\<newline>'' @
     ''           PRODUCTION_MAE, CANDIDATE_MAE, IMPROVEMENT_PERCENT, DECISION, DECISION_REASON\<newline>'' @
     ''    FROM MLOPS_PROD_DB.MODELS.MODEL_COMPARISON_LOG\<newline>'' @
     ''    ORDER BY COMPARISON_DATE DESC\<newline>'' @
     ''    LIMIT 10\<newline>''"

definition runs_df_sql :: string where
  "runs_df_sql =
     ''\<newline>    SELECT RUN_TIME, PHASE, STATUS, RECORDS_PROCESSED\<newline>'' @
     ''    FROM MLOPS_PROD_DB.MONITORING.PIPELINE_RUNS\<newline>'' @
     ''    ORDER BY RUN_TIME DESC\<newline>'' @
     ''    LIMIT 10\<newline>''"

definition log_df_sql :: string where
  "log_df_sql =
     ''\<newline>    SELECT RUN_TIME, NEW_ROWS, TRIGGER_TYPE\<newline>'' @
     ''    FROM MLOPS_PROD_DB.MONITORING.PIPELINE_RUN_LOG\<newline>'' @
     ''    ORDER BY RUN_TIME DESC\<newline>'' @
     ''    LIMIT 10\<newline>''"

text \<open>
  What the text of a statement says, read off its words: the verb it starts with, the table
  after \<open>FROM\<close>, the column and direction after \<open>ORDER BY\<close>, and the number after
  \<open>LIMIT\<close>.
\<close>

fun sql_words :: "string \<Rightarrow> string \<Rightarrow> string list" where
  "sql_words w [] = (if w = [] then [] else [w])"
| "sql_words w (c # cs) =
     (if c = CHR '' '' \<or> c = CHR ''\<newline>''
      then (if w = [] then sql_words [] cs else w # sql_words [] cs)
      else sql_words (w @ [c]) cs)"

fun word_after :: "string \<Rightarrow> string list \<Rightarrow> string option" where
  "word_after k (w # w' # ws) = (if w = k then Some w' else word_after k (w' # ws))"
| "word_after k ws = None"

fun words_after_order_by :: "string list \<Rightarrow> (string \<times> string) option" where
  "words_after_order_by (a # b # c # d # ws) =
     (if a = ''ORDER'' \<and> b = ''BY'' then Some (c, d)
      else words_after_order_by (b # c # d # ws))"
| "words_after_order_by ws = None"

definition verb :: "string \<Rightarrow> string option" where
  "verb q = (case sql_words [] q of [] \<Rightarrow> None | w # ws \<Rightarrow> Some w)"

definition from_table :: "string \<Rightarrow> string option" where
  "from_table q = word_after ''FROM'' (sql_words [] q)"

definition order_by :: "string \<Rightarrow> (string \<times> string) option" where
  "order_by q = words_after_order_by (sql_words [] q)"

definition limit :: "string \<Rightarrow> string option" where
  "limit q = word_after ''LIMIT'' (sql_words [] q)"

section \<open>The script\<close>

text \<open>The labels, with their emoji as UTF-8 bytes.\<close>

definition title_text :: string where
  "title_text = [CHR 0xF0, CHR 0x9F, CHR 0x9A, CHR 0x80] @ '' MLOps Production Dashboard''"

definition production_model_label :: string where
  "production_model_label = [CHR 0xF0, CHR 0x9F, CHR 0x8F, CHR 0x86] @ '' Production Model''"

definition mae_label :: string where
  "mae_label = [CHR 0xF0, CHR 0x9F, CHR 0x93, CHR 0x8A] @ '' MAE''"

definition raw_records_label :: string where
  "raw_records_label = [CHR 0xF0, CHR 0x9F, CHR 0x93, CHR 0x81] @ '' Raw Records''"

definition features_label :: string where
  "features_label = [CHR 0xF0, CHR 0x9F, CHR 0x94, CHR 0xA7] @ '' Features''"

definition model_history_title :: string where
  "model_history_title = [CHR 0xF0, CHR 0x9F, CHR 0x93, CHR 0x88] @ '' Model Training History''"

definition drift_title :: string where
  "drift_title = [CHR 0xF0, CHR 0x9F, CHR 0x94, CHR 0x8D] @ '' Data Drift Monitoring''"

definition comparison_title :: string where
  "comparison_title =
     [CHR 0xE2, CHR 0x9A, CHR 0x96, CHR 0xEF, CHR 0xB8, CHR 0x8F] @ '' Model Comparison History''"

definition runs_title :: string where
  "runs_title = [CHR 0xF0, CHR 0x9F, CHR 0x94, CHR 0x84] @ '' Pipeline Run History''"

definition triggers_title :: string where
  "triggers_title = [CHR 0xF0, CHR 0x9F, CHR 0x93, CHR 0xA5] @ '' Data Load Triggers''"

definition success_text :: "cell \<Rightarrow> string" where
  "success_text status = [CHR 0xE2, CHR 0x9C, CHR 0x85] @ '' Drift Status: '' @ py_str status"

definition warning_text :: "cell \<Rightarrow> string" where
  "warning_text status =
     [CHR 0xE2, CHR 0x9A, CHR 0xA0, CHR 0xEF, CHR 0xB8, CHR 0x8F] @ '' Drift Status: '' @ py_str status"

definition error_text :: "cell \<Rightarrow> string" where
  "error_text status = [CHR 0xF0, CHR 0x9F, CHR 0x9A, CHR 0xA8] @ '' Drift Status: '' @ py_str status"

text \<open>Lines 9 to 11.\<close>

definition page_header :: "run \<Rightarrow> run" where
  "page_header =
     in_order
       [render Page (PageConfig ''MLOps Dashboard'' ''wide''),
        render Page (Title title_text),
        render Page (Markdown ''---'')]"

text \<open>Lines 19 to 30: the production model and its MAE, or the two stand-in values.\<close>

definition production_model :: "session \<Rightarrow> run \<Rightarrow> run" where
  "production_model sess r0 =
     collect sess prod_model_sql r0 (\<lambda>prod_model r1.
       if prod_model \<noteq> [] then
         eval (and_then (first_row prod_model) (\<lambda>x. getitem x ''MODEL_VERSION'')) r1
           (\<lambda>version r2.
              eval (and_then (and_then (first_row prod_model) (\<lambda>x. getitem x ''MAE''))
                      format_comma_0f)
                (render (KpiCol 1) (Metric production_model_label version) r2)
                (\<lambda>mae. render (KpiCol 2) (Metric mae_label (CStr mae))))
       else
         in_order
           [render (KpiCol 1) (Metric production_model_label (CStr ''None'')),
            render (KpiCol 2) (Metric mae_label (CStr ''N/A''))] r1)"

text \<open>Lines 33 to 37: both counts are fetched before either is shown.\<close>

definition data_counts :: "session \<Rightarrow> run \<Rightarrow> run" where
  "data_counts sess r0 =
     collect sess raw_count_sql r0 (\<lambda>raw_rows r1.
       eval (and_then (first_row raw_rows) (\<lambda>x. getitem x ''CNT'')) r1 (\<lambda>raw_count r2.
         collect sess feature_count_sql r2 (\<lambda>feature_rows r3.
           eval (and_then (first_row feature_rows) (\<lambda>x. getitem x ''CNT'')) r3
             (\<lambda>feature_count r4.
                eval (format_comma raw_count) r4 (\<lambda>raw_text r5.
                  eval (format_comma feature_count)
                    (render (KpiCol 3) (Metric raw_records_label (CStr raw_text)) r5)
                    (\<lambda>feature_text.
                       render (KpiCol 4) (Metric features_label (CStr feature_text))))))))"

text \<open>Lines 16 to 39.\<close>

definition kpi_section :: "session \<Rightarrow> run \<Rightarrow> run" where
  "kpi_section sess =
     in_order
       [render Page (Columns 4),
        production_model sess,
        data_counts sess,
        render Page (Markdown ''---'')]"

text \<open>Lines 44 to 56.\<close>

definition model_history :: "session \<Rightarrow> run \<Rightarrow> run" where
  "model_history sess =
     in_order
       [render Page (Subheader model_history_title),
        (\<lambda>r. to_pandas sess model_df_sql r (\<lambda>model_df.
           if length model_df > 0 then render Page (Dataframe model_df True)
           else render Page (Info ''No models trained yet'')))]"

text \<open>Lines 66 to 77, the left drift column.\<close>

definition drift_table :: "session \<Rightarrow> run \<Rightarrow> run" where
  "drift_table sess r =
     to_pandas sess drift_df_sql r (\<lambda>drift_df.
       if length drift_df > 0 then render (DriftCol 1) (Dataframe drift_df True)
       else render (DriftCol 1) (Info ''No drift data yet''))"

text \<open>Lines 79 to 95, the right drift column.\<close>

definition drift_status :: "session \<Rightarrow> run \<Rightarrow> run" where
  "drift_status sess r0 =
     collect sess latest_drift_sql r0 (\<lambda>latest_drift r1.
       if latest_drift \<noteq> [] then
         eval (and_then (first_row latest_drift) (\<lambda>x. getitem x ''DRIFT_STATUS'')) r1
           (\<lambda>status.
              if status = CStr ''NORMAL'' \<or> status = CStr ''BASELINE''
              then render (DriftCol 2) (Success (success_text status))
              else if status = CStr ''WARNING''
              then render (DriftCol 2) (Warning (warning_text status))
              else render (DriftCol 2) (Error (error_text status)))
       else render (DriftCol 2) (Info ''No drift data'') r1)"

text \<open>Lines 61 to 95.\<close>

definition drift_monitoring :: "session \<Rightarrow> run \<Rightarrow> run" where
  "drift_monitoring sess =
     in_order
       [render Page (Markdown ''---''),
        render Page (Subheader drift_title),
        render Page (Columns 2),
        drift_table sess,
        drift_status sess]"

text \<open>Lines 100 to 114.\<close>

definition comparison_log :: "session \<Rightarrow> run \<Rightarrow> run" where
  "comparison_log sess =
     in_order
       [render Page (Markdown ''---''),
        render Page (Subheader comparison_title),
        (\<lambda>r. to_pandas sess comparison_df_sql r (\<lambda>comparison_df.
           if length comparison_df > 0 then render Page (Dataframe comparison_df True)
           else render Page (Info ''No comparisons logged yet'')))]"

text \<open>Lines 119 to 132.\<close>

definition pipeline_runs :: "session \<Rightarrow> run \<Rightarrow> run" where
  "pipeline_runs sess =
     in_order
       [render Page (Markdown ''---''),
        render Page (Subheader runs_title),
        (\<lambda>r. to_pandas sess runs_df_sql r (\<lambda>runs_df.
           if length runs_df > 0 then render Page (Dataframe runs_df True)
           else render Page (Info ''No pipeline runs yet'')))]"

text \<open>Lines 137 to 150.\<close>

definition stream_data_log :: "session \<Rightarrow> run \<Rightarrow> run" where
  "stream_data_log sess =
     in_order
       [render Page (Markdown ''---''),
        render Page (Subheader triggers_title),
        (\<lambda>r. to_pandas sess log_df_sql r (\<lambda>log_df.
           if length log_df > 0 then render Page (Dataframe log_df True)
           else render Page (Info ''No data load triggers yet'')))]"

text \<open>Lines 152 and 153.\<close>

definition footer :: "run \<Rightarrow> run" where
  "footer =
     in_order
       [render Page (Markdown ''---''),
        render Page
          (Caption ''MLOps Production Pipeline Dashboard | Auto-refreshes with new data'')]"

text \<open>One render pass: the whole script, top to bottom, against a session.\<close>

definition dashboard :: "session \<Rightarrow> run" where
  "dashboard sess =
     in_order
       [page_header,
        kpi_section sess,
        model_history sess,
        drift_monitoring sess,
        comparison_log sess,
        pipeline_runs sess,
        stream_data_log sess,
        footer] start"

section \<open>Sample sessions\<close>

text \<open>
  Sessions to run the script against: one that answers every statement with the same rows,
  one that answers like a small warehouse, and one that fails at a chosen statement.
\<close>

definition answering :: "table \<Rightarrow> session" where
  "answering rows q = Inr rows"

definition demo_session :: session where
  "demo_session q =
     (if q = prod_model_sql then
        Inr [[(''MODEL_VERSION'', CStr ''v3''), (''MAE'', CInt 1234567),
              (''TRAINING_DATE'', CStr ''2024-05-01'')]]
      else if q = raw_count_sql then Inr [[(''CNT'', CInt 2500000)]]
      else if q = feature_count_sql then Inr [[(''CNT'', CInt 48000)]]
      else if q = latest_drift_sql then Inr [[(''DRIFT_STATUS'', CStr ''WARNING'')]]
      else if q = runs_df_sql then
        Inr [[(''RUN_TIME'', CStr ''2024-05-02''), (''PHASE'', CStr ''TRAIN''),
              (''STATUS'', CStr ''SUCCESS''), (''RECORDS_PROCESSED'', CInt 1200)],
             [(''RUN_TIME'', CStr ''2024-05-01''), (''PHASE'', CStr ''INGEST''),
              (''STATUS'', CStr ''SUCCESS''), (''RECORDS_PROCESSED'', CInt 900)]]
      else Inr [])"

definition two_rows :: table where
  "two_rows =
     [[(''RUN_TIME'', CStr ''2024-05-02''), (''NEW_ROWS'', CInt 40)],
      [(''RUN_TIME'', CStr ''2024-05-01''), (''NEW_ROWS'', CInt 7)]]"

definition failing_at :: "string \<Rightarrow> exn \<Rightarrow> session \<Rightarrow> session" where
  "failing_at q0 e sess q = (if q = q0 then Inl e else sess q)"

definition broken_session :: session where
  "broken_session = failing_at model_df_sql (SqlError ''warehouse suspended'') demo_session"

section \<open>What a pass leaves behind\<close>

text \<open>
  The statements a pass has sent, in order, and the nine statements of the script in the
  order the script reaches them.
\<close>

fun sql_text :: "effect \<Rightarrow> string list" where
  "sql_text (Sql q) = [q]"
| "sql_text (Render c w) = []"

definition statements :: "run \<Rightarrow> string list" where
  "statements r = concat (map sql_text (trace r))"

definition all_statements :: "string list" where
  "all_statements =
     [prod_model_sql, raw_count_sql, feature_count_sql, model_df_sql, drift_df_sql,
      latest_drift_sql, comparison_df_sql, runs_df_sql, log_df_sql]"

text \<open>
  Three properties of a pass, each kept by every step of the script. \<open>unbroken\<close>: no
  statement that fails for the session has been sent, unless it was the last thing the pass
  did and its exception is the one raised. \<open>read_only\<close>: every statement sent is one of the
  nine, and every table shown was returned by a statement sent before. \<open>issues b qs\<close>: the
  step \<open>b\<close> sends the statements \<open>qs\<close> in order, all of them when it ends without an
  exception and an initial part of them otherwise.
\<close>

definition unbroken :: "session \<Rightarrow> run \<Rightarrow> bool" where
  "unbroken sess r \<longleftrightarrow>
     (raised r = None \<longrightarrow> (\<forall>q. Sql q \<in> set (trace r) \<longrightarrow> (\<exists>rows. sess q = Inr rows)))
     \<and> (\<forall>e. raised r = Some e \<longrightarrow>
          (\<forall>q e'. Sql q \<in> set (trace r) \<and> sess q = Inl e' \<longrightarrow>
             e' = e \<and> last (trace r) = Sql q))"

definition fetched_by :: "session \<Rightarrow> effect list \<Rightarrow> table \<Rightarrow> bool" where
  "fetched_by sess es df \<longleftrightarrow> (\<exists>q. Sql q \<in> set es \<and> sess q = Inr df)"

definition read_only :: "session \<Rightarrow> run \<Rightarrow> bool" where
  "read_only sess r \<longleftrightarrow>
     (\<forall>q. Sql q \<in> set (trace r) \<longrightarrow> q \<in> set all_statements)
     \<and> (\<forall>c df w. Render c (Dataframe df w) \<in> set (trace r) \<longrightarrow>
          fetched_by sess (trace r) df)"

definition issues :: "(run \<Rightarrow> run) \<Rightarrow> string list \<Rightarrow> bool" where
  "issues b qs \<longleftrightarrow>
     (\<forall>r. prefix (statements r) (statements (b r))
        \<and> prefix (statements (b r)) (statements r @ qs)
        \<and> (raised (b r) = None \<longrightarrow> statements (b r) = statements r @ qs))"

section \<open>What a grouped number looks like\<close>

text \<open>
  The spec's words for a KPI number, thousands separators and zero decimal places, written
  out without reference to the formatting code: \<open>shows_number s i\<close> says that \<open>s\<close> is a
  minus sign exactly when \<open>i\<close> is negative, followed by digits and commas only; that the
  digits, read as a decimal numeral without leading zero, give \<open>\<bar>i\<bar>\<close>; and that, counted from
  the right, every fourth character and no other is a comma, with no comma in front.
\<close>

definition digit_value :: "char \<Rightarrow> nat" where
  "digit_value c = of_char c - 48"

definition read_decimal :: "string \<Rightarrow> nat" where
  "read_decimal ds = foldl (\<lambda>a c. 10 * a + digit_value c) 0 ds"

definition shows_number :: "string \<Rightarrow> int \<Rightarrow> bool" where
  "shows_number s i \<longleftrightarrow>
     (let body = (if i < 0 then tl s else s);
          ds = filter (\<lambda>c. c \<noteq> CHR '','') body
      in (i < 0 \<longrightarrow> s \<noteq> [] \<and> hd s = CHR ''-'')
         \<and> ds \<noteq> []
         \<and> set ds \<subseteq> set ''0123456789''
         \<and> read_decimal ds = nat \<bar>i\<bar>
         \<and> (i \<noteq> 0 \<longrightarrow> hd ds \<noteq> CHR ''0'')
         \<and> length body = length ds + (length ds - 1) div 3
         \<and> (\<forall>k < length body. (rev body ! k = CHR '','') = (k mod 4 = 3)))"

section \<open>Basic facts\<close>

text \<open>The definitions every step of the script is built from, and what they do to a pass.\<close>

text \<open>
  The recursive equations of \<open>digits\<close>, \<open>group3\<close> and \<open>bit_length\<close> are used where a proof
  names them, not by default.
\<close>

declare digits.simps [simp del] group3.simps [simp del] bit_length.simps [simp del]

lemmas block_defs = collect_def to_pandas_def eval_def and_then_def first_row_def getitem_def
  Let_def

lemma trace_render [simp]: "trace (render c w r) = trace r @ [Render c w]"
  by (simp add: render_def)

lemma raised_render [simp]: "raised (render c w r) = raised r"
  by (simp add: render_def)

lemma trace_raise [simp]: "trace (raise e r) = trace r"
  by (simp add: raise_def)

lemma raised_raise [simp]: "raised (raise e r) = Some e"
  by (simp add: raise_def)

lemma drift_status_row:
  assumes "sess latest_drift_sql = Inr (x # xs)" and "map_of x ''DRIFT_STATUS'' = Some status"
  shows "drift_status sess r =
           render (DriftCol 2)
             (if status = CStr ''NORMAL'' \<or> status = CStr ''BASELINE'' then Success (success_text status)
              else if status = CStr ''WARNING'' then Warning (warning_text status)
              else Error (error_text status))
             (r\<lparr>trace := trace r @ [Sql latest_drift_sql]\<rparr>)"
  using assms by (simp add: drift_status_def collect_def eval_def and_then_def first_row_def getitem_def)

lemma demo_prod_model:
  "demo_session prod_model_sql =
     Inr [[(''MODEL_VERSION'', CStr ''v3''), (''MAE'', CInt 1234567),
           (''TRAINING_DATE'', CStr ''2024-05-01'')]]"
  by (simp add: demo_session_def)

lemma demo_raw_count: "demo_session raw_count_sql = Inr [[(''CNT'', CInt 2500000)]]"
  by (simp add: demo_session_def raw_count_sql_def prod_model_sql_def)

lemma demo_feature_count: "demo_session feature_count_sql = Inr [[(''CNT'', CInt 48000)]]"
  by (simp add: demo_session_def raw_count_sql_def prod_model_sql_def feature_count_sql_def)

lemma format_mae: "format_comma_0f (CInt 1234567) = Inr ''1,234,567''"
  by (simp add: format_comma_0f_def int_to_float_def and_then_def grouped_def Let_def
      digits.simps group3.simps bit_length.simps)

lemma format_raw: "format_comma (CInt 2500000) = Inr ''2,500,000''"
  by (simp add: format_comma_def grouped_def digits.simps group3.simps)

lemma format_features: "format_comma (CInt 48000) = Inr ''48,000''"
  by (simp add: format_comma_def grouped_def digits.simps group3.simps)

lemma format_comma_Inr: "format_comma v = Inr s \<Longrightarrow> \<exists>n. v = CInt n \<and> s = grouped n"
  by (cases v) (auto simp: format_comma_def)

section \<open>Decimal numerals and grouping\<close>

text \<open>
  \<open>digits\<close> writes the canonical decimal numeral, \<open>group3\<close> puts a comma before every
  group of three digits counted from the right, and so \<open>grouped i\<close> is the grouped numeral of
  \<open>i\<close> for every integer. Below \<open>2 ^ 53\<close> the conversion to a float changes nothing.
\<close>

lemma digit_cases:
  "d < 10 \<Longrightarrow> d = 0 \<or> d = 1 \<or> d = 2 \<or> d = 3 \<or> d = 4 \<or> d = 5 \<or> d = 6 \<or> d = 7 \<or> d = 8 \<or> d = (9::nat)"
  by arith

lemma digit_char_value: "d < 10 \<Longrightarrow> digit_value (''0123456789'' ! d) = d"
  by (drule digit_cases) (auto simp: digit_value_def)

lemma digit_char_mem: "d < 10 \<Longrightarrow> ''0123456789'' ! d \<in> set ''0123456789''"
  by (drule digit_cases) auto

lemma digit_char_zero: "d < 10 \<Longrightarrow> (''0123456789'' ! d = CHR ''0'') = (d = 0)"
  by (drule digit_cases) auto

lemma digits_nonempty: "digits m \<noteq> []"
  by (subst digits.simps) (simp del: digits.simps)

lemma digits_chars: "set (digits m) \<subseteq> set ''0123456789''"
proof (induction m rule: digits.induct)
  case (1 n)
  show ?case
  proof (cases "n < 10")
    case True
    with digit_char_mem [of n] show ?thesis
      by (subst digits.simps) (simp del: digits.simps)
  next
    case False
    have "n mod 10 < 10" by simp
    from digit_char_mem [OF this] 1 False show ?thesis
      by (subst digits.simps) (simp del: digits.simps)
  qed
qed

lemma read_decimal_snoc:
  "read_decimal (ds @ [c]) = 10 * read_decimal ds + digit_value c"
  by (simp add: read_decimal_def)

lemma read_decimal_digits: "read_decimal (digits m) = m"
proof (induction m rule: digits.induct)
  case (1 n)
  show ?case
  proof (cases "n < 10")
    case True
    with digit_char_value [of n] show ?thesis
      by (subst digits.simps) (simp add: read_decimal_def del: digits.simps)
  next
    case False
    have "n mod 10 < 10" by simp
    from digit_char_value [OF this] 1 False show ?thesis
      by (subst digits.simps) (simp add: read_decimal_snoc del: digits.simps)
  qed
qed

lemma digits_no_leading_zero: "m \<noteq> 0 \<Longrightarrow> hd (digits m) \<noteq> CHR ''0''"
proof (induction m rule: digits.induct)
  case (1 n)
  show ?case
  proof (cases "n < 10")
    case True
    with 1(2) digit_char_zero [of n] show ?thesis
      by (subst digits.simps) (simp del: digits.simps)
  next
    case False
    then have "n div 10 \<noteq> 0" by simp
    with 1(1) False have "hd (digits (n div 10)) \<noteq> CHR ''0''" by simp
    with False show ?thesis
      by (subst digits.simps) (simp add: digits_nonempty del: digits.simps)
  qed
qed

lemma group3_short: "length ds \<le> 3 \<Longrightarrow> group3 ds = ds"
  by (subst group3.simps) (simp)

lemma group3_long:
  "\<not> length ds \<le> 3 \<Longrightarrow>
   group3 ds = group3 (take (length ds - 3) ds) @ CHR '','' # drop (length ds - 3) ds"
  by (subst group3.simps) (simp)

lemma filter_group3:
  "CHR '','' \<notin> set ds \<Longrightarrow> filter (\<lambda>c. c \<noteq> CHR '','') (group3 ds) = ds"
proof (induction ds rule: group3.induct)
  case (1 ds)
  show ?case
  proof (cases "length ds \<le> 3")
    case True
    with 1(2) show ?thesis
      by (auto simp: group3_short filter_id_conv)
  next
    case False
    let ?a = "take (length ds - 3) ds" and ?b = "drop (length ds - 3) ds"
    from 1(2) have na: "CHR '','' \<notin> set ?a" and nb: "CHR '','' \<notin> set ?b"
      by (auto dest: in_set_takeD in_set_dropD)
    from 1(1) [OF False na] have "filter (\<lambda>c. c \<noteq> CHR '','') (group3 ?a) = ?a" .
    moreover from nb have "filter (\<lambda>c. c \<noteq> CHR '','') ?b = ?b"
      by (auto simp: filter_id_conv)
    ultimately show ?thesis
      using False by (simp add: group3_long)
  qed
qed

lemma length_group3: "length (group3 ds) = length ds + (length ds - 1) div 3"
proof (induction ds rule: group3.induct)
  case (1 ds)
  show ?case
  proof (cases "length ds \<le> 3")
    case True
    then show ?thesis
      by (simp add: group3_short)
  next
    case False
    from 1 [OF False]
    have "length (group3 (take (length ds - 3) ds)) =
            (length ds - 3) + (length ds - 3 - 1) div 3"
      by simp
    with False show ?thesis
      by (simp add: group3_long)
  qed
qed

lemma nth_after_three:
  "length b = 3 \<Longrightarrow>
   (b @ c # g) ! k = (if k < 3 then b ! k else if k = 3 then c else g ! (k - 4))"
proof -
  assume b: "length b = 3"
  have "3 < k \<Longrightarrow> k - 3 - 1 = k - 4" by simp
  with b show ?thesis
    by (simp add: nth_append nth_Cons')
qed

lemma commas_group3:
  "CHR '','' \<notin> set ds \<Longrightarrow> k < length (group3 ds) \<Longrightarrow>
   (rev (group3 ds) ! k = CHR '','') = (k mod 4 = 3)"
proof (induction ds arbitrary: k rule: group3.induct)
  case (1 ds)
  show ?case
  proof (cases "length ds \<le> 3")
    case True
    from "1.prems"(2) have "k < length ds"
      unfolding group3_short [OF True] .
    with True have k: "k < length ds" "k < 3"
      by simp_all
    from k(1) have "rev ds ! k \<in> set (rev ds)"
      by (intro nth_mem) simp
    with "1.prems"(1) have "rev ds ! k \<noteq> CHR '',''" by auto
    moreover from k(2) have "k mod 4 \<noteq> 3" by simp
    ultimately show ?thesis
      unfolding group3_short [OF True] by simp
  next
    case False
    define a where "a = take (length ds - 3) ds"
    define b where "b = rev (drop (length ds - 3) ds)"
    define g where "g = rev (group3 a)"
    have na: "CHR '','' \<notin> set a"
      using "1.prems"(1) unfolding a_def by (auto dest: in_set_takeD)
    have nb: "CHR '','' \<notin> set b"
      using "1.prems"(1) unfolding b_def by (auto dest: in_set_dropD)
    have lb: "length b = 3"
      using False unfolding b_def by simp
    have "group3 ds = group3 a @ CHR '','' # drop (length ds - 3) ds"
      unfolding a_def by (rule group3_long [OF False])
    then have r: "rev (group3 ds) = b @ CHR '','' # g"
      unfolding b_def g_def by simp
    have lg: "length (group3 ds) = length g + 4"
      using arg_cong [OF r, of length] lb by simp
    have nth: "rev (group3 ds) ! k =
                 (if k < 3 then b ! k else if k = 3 then CHR '','' else g ! (k - 4))"
      unfolding r by (rule nth_after_three [OF lb])
    consider "k < 3" | "k = 3" | "3 < k" by linarith
    then show ?thesis
    proof cases
      case 1
      with lb have "b ! k \<in> set b" by (intro nth_mem) simp
      with nb have "b ! k \<noteq> CHR '',''" by auto
      with 1 nth show ?thesis by simp
    next
      case 2
      with nth show ?thesis by simp
    next
      case 3
      with "1.prems"(2) lg have "k - 4 < length (group3 a)"
        unfolding g_def by simp
      from "1.IH" [OF False na [unfolded a_def] this [unfolded a_def]]
      have "(g ! (k - 4) = CHR '','') = ((k - 4) mod 4 = 3)"
        unfolding g_def a_def .
      moreover have "(k - 4) mod 4 = k mod 4"
      proof -
        from 3 have "k = (k - 4) + 4" by simp
        then have "k mod 4 = ((k - 4) + 4) mod 4" by simp
        then show ?thesis by simp
      qed
      ultimately show ?thesis using 3 nth by simp
    qed
  qed
qed

lemma no_comma_in_digits: "CHR '','' \<notin> set (digits m)"
  using digits_chars [of m] by auto

lemma grouped_minus: "i < 0 \<Longrightarrow> grouped i = CHR ''-'' # group3 (digits (nat \<bar>i\<bar>))"
  by (simp add: grouped_def)

lemma grouped_plain: "\<not> i < 0 \<Longrightarrow> grouped i = group3 (digits (nat \<bar>i\<bar>))"
  by (simp add: grouped_def)

lemma shows_number_grouped: "shows_number (grouped i) i"
proof -
  define ds where "ds = digits (nat \<bar>i\<bar>)"
  define body where "body = group3 ds"
  have nc: "CHR '','' \<notin> set ds"
    unfolding ds_def by (rule no_comma_in_digits)
  have b: "(if i < 0 then tl (grouped i) else grouped i) = body"
    unfolding body_def ds_def by (simp add: grouped_minus grouped_plain)
  have f: "filter (\<lambda>c. c \<noteq> CHR '','') body = ds"
    unfolding body_def by (rule filter_group3 [OF nc])
  have sign: "i < 0 \<longrightarrow> grouped i \<noteq> [] \<and> hd (grouped i) = CHR ''-''"
    by (simp add: grouped_minus)
  have ne: "ds \<noteq> []"
    unfolding ds_def by (rule digits_nonempty)
  have chars: "set ds \<subseteq> set ''0123456789''"
    unfolding ds_def by (rule digits_chars)
  have val: "read_decimal ds = nat \<bar>i\<bar>"
    unfolding ds_def by (rule read_decimal_digits)
  have lead: "i \<noteq> 0 \<longrightarrow> hd ds \<noteq> CHR ''0''"
  proof
    assume "i \<noteq> 0"
    then have "nat \<bar>i\<bar> \<noteq> 0" by simp
    then show "hd ds \<noteq> CHR ''0''"
      unfolding ds_def by (rule digits_no_leading_zero)
  qed
  have len: "length body = length ds + (length ds - 1) div 3"
    unfolding body_def by (rule length_group3)
  have commas: "\<forall>k < length body. (rev body ! k = CHR '','') = (k mod 4 = 3)"
    unfolding body_def by (intro allI impI commas_group3 [OF nc])
  show ?thesis
    unfolding shows_number_def Let_def b f
    using sign ne chars val lead len commas by blast
qed

lemma bit_length_le: "bit_length n \<le> k \<longleftrightarrow> n < 2 ^ k"
proof (induction k arbitrary: n)
  case 0
  show ?case by (subst bit_length.simps) (simp)
next
  case (Suc k)
  show ?case
  proof (cases "n = 0")
    case True
    then show ?thesis by (subst bit_length.simps) (simp)
  next
    case False
    have "(n div 2 < 2 ^ k) = (n < 2 * 2 ^ k)" by presburger
    with Suc [of "n div 2"] False show ?thesis
      by (subst bit_length.simps) (simp)
  qed
qed

lemma int_to_float_exact: "\<bar>n\<bar> < 2 ^ 53 \<Longrightarrow> int_to_float n = Inr n"
proof -
  assume "\<bar>n\<bar> < 2 ^ 53"
  then have "nat \<bar>n\<bar> < 2 ^ 53"
    by (simp add: nat_less_iff)
  then have "bit_length (nat \<bar>n\<bar>) \<le> 53"
    by (simp only: bit_length_le)
  then show ?thesis
    by (simp add: int_to_float_def Let_def)
qed

lemma format_comma_0f_exact:
  "\<bar>n\<bar> < 2 ^ 53 \<Longrightarrow> format_comma_0f (CInt n) = Inr (grouped n)"
  by (simp add: format_comma_0f_def and_then_def int_to_float_exact)

section \<open>The sample sessions, evaluated\<close>

text \<open>
  The nine statements are pairwise different, so the sample warehouse answers each of them
  as written; the two lemmas at the end give the whole pass against it and against the
  session that fails at the model-history statement.
\<close>

lemmas sql_defs = prod_model_sql_def raw_count_sql_def feature_count_sql_def model_df_sql_def
  drift_df_sql_def latest_drift_sql_def comparison_df_sql_def runs_df_sql_def log_df_sql_def

lemma distinct_statements: "distinct all_statements"
  by (simp add: all_statements_def sql_defs)

lemma demo_model_df: "demo_session model_df_sql = Inr []"
  by (simp add: demo_session_def sql_defs)

lemma demo_drift_df: "demo_session drift_df_sql = Inr []"
  by (simp add: demo_session_def sql_defs)

lemma demo_latest_drift:
  "demo_session latest_drift_sql = Inr [[(''DRIFT_STATUS'', CStr ''WARNING'')]]"
  by (simp add: demo_session_def sql_defs)

lemma demo_comparison_df: "demo_session comparison_df_sql = Inr []"
  by (simp add: demo_session_def sql_defs)

lemma demo_runs_df:
  "demo_session runs_df_sql =
     Inr [[(''RUN_TIME'', CStr ''2024-05-02''), (''PHASE'', CStr ''TRAIN''),
           (''STATUS'', CStr ''SUCCESS''), (''RECORDS_PROCESSED'', CInt 1200)],
          [(''RUN_TIME'', CStr ''2024-05-01''), (''PHASE'', CStr ''INGEST''),
           (''STATUS'', CStr ''SUCCESS''), (''RECORDS_PROCESSED'', CInt 900)]]"
  by (simp add: demo_session_def sql_defs)

lemma demo_log_df: "demo_session log_df_sql = Inr []"
  by (simp add: demo_session_def sql_defs)

lemmas demo_rows = demo_prod_model demo_raw_count demo_feature_count demo_model_df
  demo_drift_df demo_latest_drift demo_comparison_df demo_runs_df demo_log_df

lemma demo_dashboard:
  "dashboard demo_session =
     \<lparr>trace =
        [Render Page (PageConfig ''MLOps Dashboard'' ''wide''),
         Render Page (Title title_text),
         Render Page (Markdown ''---''),
         Render Page (Columns 4),
         Sql prod_model_sql,
         Render (KpiCol 1) (Metric production_model_label (CStr ''v3'')),
         Render (KpiCol 2) (Metric mae_label (CStr ''1,234,567'')),
         Sql raw_count_sql,
         Sql feature_count_sql,
         Render (KpiCol 3) (Metric raw_records_label (CStr ''2,500,000'')),
         Render (KpiCol 4) (Metric features_label (CStr ''48,000'')),
         Render Page (Markdown ''---''),
         Render Page (Subheader model_history_title),
         Sql model_df_sql,
         Render Page (Info ''No models trained yet''),
         Render Page (Markdown ''---''),
         Render Page (Subheader drift_title),
         Render Page (Columns 2),
         Sql drift_df_sql,
         Render (DriftCol 1) (Info ''No drift data yet''),
         Sql latest_drift_sql,
         Render (DriftCol 2) (Warning (warning_text (CStr ''WARNING''))),
         Render Page (Markdown ''---''),
         Render Page (Subheader comparison_title),
         Sql comparison_df_sql,
         Render Page (Info ''No comparisons logged yet''),
         Render Page (Markdown ''---''),
         Render Page (Subheader runs_title),
         Sql runs_df_sql,
         Render Page
           (Dataframe
              [[(''RUN_TIME'', CStr ''2024-05-02''), (''PHASE'', CStr ''TRAIN''),
                (''STATUS'', CStr ''SUCCESS''), (''RECORDS_PROCESSED'', CInt 1200)],
               [(''RUN_TIME'', CStr ''2024-05-01''), (''PHASE'', CStr ''INGEST''),
                (''STATUS'', CStr ''SUCCESS''), (''RECORDS_PROCESSED'', CInt 900)]]
              True),
         Render Page (Markdown ''---''),
         Render Page (Subheader triggers_title),
         Sql log_df_sql,
         Render Page (Info ''No data load triggers yet''),
         Render Page (Markdown ''---''),
         Render Page
           (Caption ''MLOps Production Pipeline Dashboard | Auto-refreshes with new data'')],
      raised = None\<rparr>"
  by (simp add: dashboard_def page_header_def kpi_section_def production_model_def
      data_counts_def model_history_def drift_monitoring_def drift_table_def drift_status_def
      comparison_log_def pipeline_runs_def stream_data_log_def footer_def block_defs
      render_def raise_def start_def demo_rows format_mae format_raw format_features)

lemma broken_rows:
  "broken_session prod_model_sql = demo_session prod_model_sql"
  "broken_session raw_count_sql = demo_session raw_count_sql"
  "broken_session feature_count_sql = demo_session feature_count_sql"
  "broken_session model_df_sql = Inl (SqlError ''warehouse suspended'')"
  by (simp_all add: broken_session_def failing_at_def sql_defs)

lemma broken_dashboard:
  "dashboard broken_session =
     \<lparr>trace =
        [Render Page (PageConfig ''MLOps Dashboard'' ''wide''),
         Render Page (Title title_text),
         Render Page (Markdown ''---''),
         Render Page (Columns 4),
         Sql prod_model_sql,
         Render (KpiCol 1) (Metric production_model_label (CStr ''v3'')),
         Render (KpiCol 2) (Metric mae_label (CStr ''1,234,567'')),
         Sql raw_count_sql,
         Sql feature_count_sql,
         Render (KpiCol 3) (Metric raw_records_label (CStr ''2,500,000'')),
         Render (KpiCol 4) (Metric features_label (CStr ''48,000'')),
         Render Page (Markdown ''---''),
         Render Page (Subheader model_history_title),
         Sql model_df_sql],
      raised = Some (SqlError ''warehouse suspended'')\<rparr>"
  by (simp add: dashboard_def page_header_def kpi_section_def production_model_def
      data_counts_def model_history_def block_defs render_def raise_def start_def
      broken_rows demo_rows format_mae format_raw format_features)

section \<open>The words of the statements\<close>

text \<open>Each statement split at blanks and line breaks.\<close>

lemma words_prod_model:
  "sql_words [] prod_model_sql =
     [''SELECT'', ''MODEL_VERSION,'', ''MAE,'', ''TRAINING_DATE'', ''FROM'',
      ''MLOPS_PROD_DB.MODELS.MODEL_REGISTRY'', ''WHERE'', ''STATUS'', ''='',
      [CHR 0x27] @ ''PRODUCTION'' @ [CHR 0x27], ''LIMIT'', ''1'']"
  by (simp add: prod_model_sql_def)

lemma words_raw_count:
  "sql_words [] raw_count_sql =
     [''SELECT'', ''COUNT(*)'', ''AS'', ''CNT'', ''FROM'', ''MLOPS_PROD_DB.RAW.RAW_SALES'']"
  by (simp add: raw_count_sql_def)

lemma words_feature_count:
  "sql_words [] feature_count_sql =
     [''SELECT'', ''COUNT(*)'', ''AS'', ''CNT'', ''FROM'',
      ''MLOPS_PROD_DB.FEATURES.FEATURE_STORE'']"
  by (simp add: feature_count_sql_def)

lemma words_model_df:
  "sql_words [] model_df_sql =
     [''SELECT'', ''MODEL_VERSION,'', ''MODEL_TYPE,'', ''STATUS,'', ''TRAINING_DATE,'',
      ''MAE,'', ''RMSE,'', ''MAPE,'', ''NOTES'', ''FROM'',
      ''MLOPS_PROD_DB.MODELS.MODEL_REGISTRY'', ''ORDER'', ''BY'', ''TRAINING_DATE'',
      ''DESC'', ''LIMIT'', ''10'']"
  by (simp add: model_df_sql_def)

lemma words_drift_df:
  "sql_words [] drift_df_sql =
     [''SELECT'', ''CHECK_DATE,'', ''METRIC_NAME,'', ''BASELINE_VALUE,'', ''CURRENT_VALUE,'',
      ''DRIFT_SCORE,'', ''DRIFT_STATUS'', ''FROM'',
      ''MLOPS_PROD_DB.MONITORING.DRIFT_METRICS'', ''ORDER'', ''BY'', ''CHECK_DATE'',
      ''DESC'', ''LIMIT'', ''10'']"
  by (simp add: drift_df_sql_def)

lemma words_latest_drift:
  "sql_words [] latest_drift_sql =
     [''SELECT'', ''DRIFT_STATUS'', ''FROM'', ''MLOPS_PROD_DB.MONITORING.DRIFT_METRICS'',
      ''WHERE'', ''METRIC_NAME'', ''='', [CHR 0x27] @ ''Y_MEAN'' @ [CHR 0x27],
      ''ORDER'', ''BY'', ''CHECK_DATE'', ''DESC'', ''LIMIT'', ''1'']"
  by (simp add: latest_drift_sql_def)

lemma words_comparison_df:
  "sql_words [] comparison_df_sql =
     [''SELECT'', ''COMPARISON_DATE,'', ''PRODUCTION_MODEL_VERSION,'',
      ''CANDIDATE_MODEL_VERSION,'', ''PRODUCTION_MAE,'', ''CANDIDATE_MAE,'',
      ''IMPROVEMENT_PERCENT,'', ''DECISION,'', ''DECISION_REASON'', ''FROM'',
      ''MLOPS_PROD_DB.MODELS.MODEL_COMPARISON_LOG'', ''ORDER'', ''BY'',
      ''COMPARISON_DATE'', ''DESC'', ''LIMIT'', ''10'']"
  by (simp add: comparison_df_sql_def)

lemma words_runs_df:
  "sql_words [] runs_df_sql =
     [''SELECT'', ''RUN_TIME,'', ''PHASE,'', ''STATUS,'', ''RECORDS_PROCESSED'', ''FROM'',
      ''MLOPS_PROD_DB.MONITORING.PIPELINE_RUNS'', ''ORDER'', ''BY'', ''RUN_TIME'',
      ''DESC'', ''LIMIT'', ''10'']"
  by (simp add: runs_df_sql_def)

lemma words_log_df:
  "sql_words [] log_df_sql =
     [''SELECT'', ''RUN_TIME,'', ''NEW_ROWS,'', ''TRIGGER_TYPE'', ''FROM'',
      ''MLOPS_PROD_DB.MONITORING.PIPELINE_RUN_LOG'', ''ORDER'', ''BY'', ''RUN_TIME'',
      ''DESC'', ''LIMIT'', ''10'']"
  by (simp add: log_df_sql_def)

lemmas words_of = words_prod_model words_raw_count words_feature_count words_model_df
  words_drift_df words_latest_drift words_comparison_df words_runs_df words_log_df

lemma all_select: "q \<in> set all_statements \<Longrightarrow> verb q = Some ''SELECT''"
  by (auto simp: all_statements_def verb_def words_of)

section \<open>Steps in sequence\<close>

text \<open>
  A property that every step keeps, as long as no exception has been raised, holds after
  the steps have run in order. This gives the three properties of a pass for the whole
  script.
\<close>

lemma in_order_keeps:
  assumes "\<And>b r. b \<in> set bs \<Longrightarrow> P r \<Longrightarrow> raised r = None \<Longrightarrow> P (b r)"
    and "P r" and "raised r = None"
  shows "P (in_order bs r)"
  using assms
proof (induction bs arbitrary: r)
  case Nil
  then show ?case by simp
next
  case (Cons b bs)
  have step: "P (b r)" using Cons.prems by simp
  show ?case
  proof (cases "raised (b r) = None")
    case True
    have "P (in_order bs (b r))"
      using Cons.IH [of "b r"] Cons.prems(1) step True by simp
    with True show ?thesis by (simp add: Let_def)
  next
    case False
    with step show ?thesis by (auto simp: Let_def)
  qed
qed

lemma unbroken_render:
  "unbroken sess r \<Longrightarrow> raised r = None \<Longrightarrow> unbroken sess (render c w r)"
  by (auto simp: unbroken_def)

lemma unbroken_production_model:
  "unbroken sess r \<Longrightarrow> raised r = None \<Longrightarrow> unbroken sess (production_model sess r)"
  by (auto simp: unbroken_def production_model_def block_defs
      split: sum.splits list.splits option.splits)

lemma unbroken_data_counts:
  "unbroken sess r \<Longrightarrow> raised r = None \<Longrightarrow> unbroken sess (data_counts sess r)"
  by (auto simp: unbroken_def data_counts_def block_defs
      split: sum.splits list.splits option.splits)

lemma unbroken_drift_table:
  "unbroken sess r \<Longrightarrow> raised r = None \<Longrightarrow> unbroken sess (drift_table sess r)"
  by (auto simp: unbroken_def drift_table_def block_defs
      split: sum.splits list.splits option.splits)

lemma unbroken_drift_status:
  "unbroken sess r \<Longrightarrow> raised r = None \<Longrightarrow> unbroken sess (drift_status sess r)"
  by (auto simp: unbroken_def drift_status_def block_defs
      split: sum.splits list.splits option.splits)

lemma in_order_unbroken:
  assumes "\<And>b r. b \<in> set bs \<Longrightarrow> unbroken sess r \<Longrightarrow> raised r = None \<Longrightarrow> unbroken sess (b r)"
    and "unbroken sess r" and "raised r = None"
  shows "unbroken sess (in_order bs r)"
proof (rule in_order_keeps [where P = "unbroken sess"])
  show "\<And>b r. b \<in> set bs \<Longrightarrow> unbroken sess r \<Longrightarrow> raised r = None \<Longrightarrow> unbroken sess (b r)"
    by (rule assms(1))
  show "unbroken sess r" by (rule assms(2))
  show "raised r = None" by (rule assms(3))
qed

lemma unbroken_page_header:
  "unbroken sess r \<Longrightarrow> raised r = None \<Longrightarrow> unbroken sess (page_header r)"
  by (auto simp: page_header_def unbroken_def)

lemma unbroken_footer:
  "unbroken sess r \<Longrightarrow> raised r = None \<Longrightarrow> unbroken sess (footer r)"
  by (auto simp: footer_def unbroken_def)

lemma unbroken_model_history:
  "unbroken sess r \<Longrightarrow> raised r = None \<Longrightarrow> unbroken sess (model_history sess r)"
  by (auto simp: model_history_def unbroken_def block_defs split: sum.splits)

lemma unbroken_comparison_log:
  "unbroken sess r \<Longrightarrow> raised r = None \<Longrightarrow> unbroken sess (comparison_log sess r)"
  by (auto simp: comparison_log_def unbroken_def block_defs split: sum.splits)

lemma unbroken_pipeline_runs:
  "unbroken sess r \<Longrightarrow> raised r = None \<Longrightarrow> unbroken sess (pipeline_runs sess r)"
  by (auto simp: pipeline_runs_def unbroken_def block_defs split: sum.splits)

lemma unbroken_stream_data_log:
  "unbroken sess r \<Longrightarrow> raised r = None \<Longrightarrow> unbroken sess (stream_data_log sess r)"
  by (auto simp: stream_data_log_def unbroken_def block_defs split: sum.splits)

lemma unbroken_kpi_section:
  assumes "unbroken sess r" and "raised r = None"
  shows "unbroken sess (kpi_section sess r)"
  unfolding kpi_section_def
proof (rule in_order_unbroken [OF _ assms])
  fix b r'
  assume "b \<in> set [render Page (Columns 4), production_model sess, data_counts sess,
                    render Page (Markdown ''---'')]"
    and "unbroken sess r'" and "raised r' = None"
  then show "unbroken sess (b r')"
    by (auto simp: unbroken_render unbroken_production_model unbroken_data_counts)
qed

lemma unbroken_drift_monitoring:
  assumes "unbroken sess r" and "raised r = None"
  shows "unbroken sess (drift_monitoring sess r)"
  unfolding drift_monitoring_def
proof (rule in_order_unbroken [OF _ assms])
  fix b r'
  assume "b \<in> set [render Page (Markdown ''---''), render Page (Subheader drift_title),
                    render Page (Columns 2), drift_table sess, drift_status sess]"
    and "unbroken sess r'" and "raised r' = None"
  then show "unbroken sess (b r')"
    by (auto simp: unbroken_render unbroken_drift_table unbroken_drift_status)
qed

lemma unbroken_dashboard: "unbroken sess (dashboard sess)"
  unfolding dashboard_def
proof (rule in_order_unbroken)
  fix b r
  assume "b \<in> set [page_header, kpi_section sess, model_history sess, drift_monitoring sess,
                    comparison_log sess, pipeline_runs sess, stream_data_log sess, footer]"
    and "unbroken sess r" and "raised r = None"
  then show "unbroken sess (b r)"
    by (auto simp: unbroken_page_header unbroken_kpi_section unbroken_model_history
        unbroken_drift_monitoring unbroken_comparison_log unbroken_pipeline_runs
        unbroken_stream_data_log unbroken_footer)
qed (simp_all add: unbroken_def start_def)

lemma in_order_read_only:
  assumes "\<And>b r. b \<in> set bs \<Longrightarrow> read_only sess r \<Longrightarrow> raised r = None \<Longrightarrow> read_only sess (b r)"
    and "read_only sess r" and "raised r = None"
  shows "read_only sess (in_order bs r)"
proof (rule in_order_keeps [where P = "read_only sess"])
  show "\<And>b r. b \<in> set bs \<Longrightarrow> read_only sess r \<Longrightarrow> raised r = None \<Longrightarrow> read_only sess (b r)"
    by (rule assms(1))
  show "read_only sess r" by (rule assms(2))
  show "raised r = None" by (rule assms(3))
qed

lemma fetched_by_append [simp]:
  "fetched_by sess (es @ es') df = (fetched_by sess es df \<or> fetched_by sess es' df)"
  by (auto simp: fetched_by_def)

lemma fetched_by_Nil [simp]: "fetched_by sess [] df = False"
  by (simp add: fetched_by_def)

lemma fetched_by_Render [simp]:
  "fetched_by sess (Render c w # es) df = fetched_by sess es df"
  by (auto simp: fetched_by_def)

lemma fetched_by_Sql [simp]:
  "fetched_by sess (Sql q # es) df = (sess q = Inr df \<or> fetched_by sess es df)"
  by (auto simp: fetched_by_def)

lemma read_only_plain:
  "read_only sess r \<Longrightarrow> read_only sess (render c (Markdown s) r)"
  "read_only sess r \<Longrightarrow> read_only sess (render c (Subheader s) r)"
  "read_only sess r \<Longrightarrow> read_only sess (render c (Columns n) r)"
  by (auto simp: read_only_def)

lemma read_only_page_header: "read_only sess r \<Longrightarrow> read_only sess (page_header r)"
  by (auto simp: page_header_def read_only_def Let_def)

lemma read_only_footer: "read_only sess r \<Longrightarrow> read_only sess (footer r)"
  by (auto simp: footer_def read_only_def Let_def)

lemma read_only_production_model:
  "read_only sess r \<Longrightarrow> read_only sess (production_model sess r)"
  by (auto simp: read_only_def production_model_def block_defs all_statements_def
      split: sum.splits list.splits option.splits)

lemma read_only_data_counts:
  "read_only sess r \<Longrightarrow> read_only sess (data_counts sess r)"
  by (auto simp: read_only_def data_counts_def block_defs all_statements_def
      split: sum.splits list.splits option.splits)

lemma read_only_drift_status:
  "read_only sess r \<Longrightarrow> read_only sess (drift_status sess r)"
  by (auto simp: read_only_def drift_status_def block_defs all_statements_def
      split: sum.splits list.splits option.splits)

lemma read_only_drift_table:
  "read_only sess r \<Longrightarrow> read_only sess (drift_table sess r)"
  by (auto simp: read_only_def drift_table_def block_defs all_statements_def
      split: sum.splits)

lemma read_only_model_history:
  "read_only sess r \<Longrightarrow> read_only sess (model_history sess r)"
  by (auto simp: model_history_def read_only_def block_defs all_statements_def
      split: sum.splits)

lemma read_only_comparison_log:
  "read_only sess r \<Longrightarrow> read_only sess (comparison_log sess r)"
  by (auto simp: comparison_log_def read_only_def block_defs all_statements_def
      split: sum.splits)

lemma read_only_pipeline_runs:
  "read_only sess r \<Longrightarrow> read_only sess (pipeline_runs sess r)"
  by (auto simp: pipeline_runs_def read_only_def block_defs all_statements_def
      split: sum.splits)

lemma read_only_stream_data_log:
  "read_only sess r \<Longrightarrow> read_only sess (stream_data_log sess r)"
  by (auto simp: stream_data_log_def read_only_def block_defs all_statements_def
      split: sum.splits)

lemma read_only_kpi_section:
  assumes "read_only sess r" and "raised r = None"
  shows "read_only sess (kpi_section sess r)"
  unfolding kpi_section_def
proof (rule in_order_read_only [OF _ assms])
  fix b r'
  assume "b \<in> set [render Page (Columns 4), production_model sess, data_counts sess,
                    render Page (Markdown ''---'')]"
    and "read_only sess r'" and "raised r' = None"
  then show "read_only sess (b r')"
    by (auto simp: read_only_plain read_only_production_model read_only_data_counts)
qed

lemma read_only_drift_monitoring:
  assumes "read_only sess r" and "raised r = None"
  shows "read_only sess (drift_monitoring sess r)"
  unfolding drift_monitoring_def
proof (rule in_order_read_only [OF _ assms])
  fix b r'
  assume "b \<in> set [render Page (Markdown ''---''), render Page (Subheader drift_title),
                    render Page (Columns 2), drift_table sess, drift_status sess]"
    and "read_only sess r'" and "raised r' = None"
  then show "read_only sess (b r')"
    by (auto simp: read_only_plain read_only_drift_table read_only_drift_status)
qed

lemma read_only_dashboard: "read_only sess (dashboard sess)"
  unfolding dashboard_def
proof (rule in_order_read_only)
  fix b r
  assume "b \<in> set [page_header, kpi_section sess, model_history sess, drift_monitoring sess,
                    comparison_log sess, pipeline_runs sess, stream_data_log sess, footer]"
    and "read_only sess r" and "raised r = None"
  then show "read_only sess (b r)"
    by (auto simp: read_only_page_header read_only_kpi_section read_only_model_history
        read_only_drift_monitoring read_only_comparison_log read_only_pipeline_runs
        read_only_stream_data_log read_only_footer)
qed (simp_all add: read_only_def start_def)

lemma prefix_self_append [simp]: "prefix xs (xs @ ys)"
  by (simp add: prefix_def)

lemma issues_render: "issues (render c w) []"
  by (simp add: issues_def statements_def)

lemma issues_production_model: "issues (production_model sess) [prod_model_sql]"
  by (auto simp: issues_def statements_def production_model_def block_defs
      split: sum.splits list.splits option.splits)

lemma issues_data_counts: "issues (data_counts sess) [raw_count_sql, feature_count_sql]"
  by (auto simp: issues_def statements_def data_counts_def block_defs
      split: sum.splits list.splits option.splits)

lemma issues_drift_table: "issues (drift_table sess) [drift_df_sql]"
  by (auto simp: issues_def statements_def drift_table_def block_defs split: sum.splits)

lemma issues_drift_status: "issues (drift_status sess) [latest_drift_sql]"
  by (auto simp: issues_def statements_def drift_status_def block_defs
      split: sum.splits list.splits option.splits)

lemma issues_page_header: "issues page_header []"
  by (simp add: issues_def statements_def page_header_def Let_def)

lemma issues_footer: "issues footer []"
  by (simp add: issues_def statements_def footer_def Let_def)

lemma issues_model_history: "issues (model_history sess) [model_df_sql]"
  by (auto simp: issues_def statements_def model_history_def block_defs split: sum.splits)

lemma issues_comparison_log: "issues (comparison_log sess) [comparison_df_sql]"
  by (auto simp: issues_def statements_def comparison_log_def block_defs split: sum.splits)

lemma issues_pipeline_runs: "issues (pipeline_runs sess) [runs_df_sql]"
  by (auto simp: issues_def statements_def pipeline_runs_def block_defs split: sum.splits)

lemma issues_stream_data_log: "issues (stream_data_log sess) [log_df_sql]"
  by (auto simp: issues_def statements_def stream_data_log_def block_defs split: sum.splits)

lemma issues_Nil: "issues (in_order []) []"
  by (simp add: issues_def)

lemma issues_Cons:
  assumes b: "issues b qs" and bs: "issues (in_order bs) rest"
  shows "issues (in_order (b # bs)) (qs @ rest)"
  unfolding issues_def
proof (intro allI)
  fix r
  let ?r' = "b r"
  from b have b1: "prefix (statements r) (statements ?r')"
    and b2: "prefix (statements ?r') (statements r @ qs)"
    and b3: "raised ?r' = None \<Longrightarrow> statements ?r' = statements r @ qs"
    by (simp_all add: issues_def)
  from bs have s1: "prefix (statements ?r') (statements (in_order bs ?r'))"
    and s2: "prefix (statements (in_order bs ?r')) (statements ?r' @ rest)"
    and s3: "raised (in_order bs ?r') = None \<Longrightarrow>
             statements (in_order bs ?r') = statements ?r' @ rest"
    by (simp_all add: issues_def)
  show "prefix (statements r) (statements (in_order (b # bs) r))
        \<and> prefix (statements (in_order (b # bs) r)) (statements r @ qs @ rest)
        \<and> (raised (in_order (b # bs) r) = None \<longrightarrow>
             statements (in_order (b # bs) r) = statements r @ qs @ rest)"
  proof (cases "raised ?r' = None")
    case True
    then have io: "in_order (b # bs) r = in_order bs ?r'" by (simp add: Let_def)
    from b1 s1 have "prefix (statements r) (statements (in_order bs ?r'))"
      by (rule prefix_order.trans)
    moreover from s2 b3 [OF True]
    have "prefix (statements (in_order bs ?r')) (statements r @ qs @ rest)" by simp
    moreover from s3 b3 [OF True]
    have "raised (in_order bs ?r') = None \<longrightarrow>
          statements (in_order bs ?r') = statements r @ qs @ rest" by simp
    ultimately show ?thesis unfolding io by simp
  next
    case False
    then have io: "in_order (b # bs) r = ?r'" by (auto simp: Let_def)
    have "prefix (statements r @ qs) (statements r @ qs @ rest)" by simp
    with b2 have "prefix (statements ?r') (statements r @ qs @ rest)"
      by (rule prefix_order.trans)
    with b1 False show ?thesis unfolding io by auto
  qed
qed

lemma issues_kpi_section:
  "issues (kpi_section sess) [prod_model_sql, raw_count_sql, feature_count_sql]"
  unfolding kpi_section_def
  using issues_Cons [OF issues_render issues_Cons [OF issues_production_model
        issues_Cons [OF issues_data_counts issues_Cons [OF issues_render issues_Nil]]]]
  by (simp del: in_order.simps)

lemma issues_drift_monitoring:
  "issues (drift_monitoring sess) [drift_df_sql, latest_drift_sql]"
  unfolding drift_monitoring_def
  using issues_Cons [OF issues_render issues_Cons [OF issues_render
        issues_Cons [OF issues_render issues_Cons [OF issues_drift_table
        issues_Cons [OF issues_drift_status issues_Nil]]]]]
  by (simp del: in_order.simps)

lemma issues_script:
  "issues
     (in_order [page_header, kpi_section sess, model_history sess, drift_monitoring sess,
                comparison_log sess, pipeline_runs sess, stream_data_log sess, footer])
     all_statements"
  using issues_Cons [OF issues_page_header issues_Cons [OF issues_kpi_section
        issues_Cons [OF issues_model_history issues_Cons [OF issues_drift_monitoring
        issues_Cons [OF issues_comparison_log issues_Cons [OF issues_pipeline_runs
        issues_Cons [OF issues_stream_data_log issues_Cons [OF issues_footer issues_Nil]]]]]]]]
  by (simp add: all_statements_def del: in_order.simps)

lemma statements_dashboard:
  "prefix (statements (dashboard sess)) all_statements"
  "raised (dashboard sess) = None \<Longrightarrow> statements (dashboard sess) = all_statements"
proof -
  have s0: "statements start = []"
    by (simp add: statements_def start_def)
  from issues_script [of sess]
  have "prefix (statements (dashboard sess)) (statements start @ all_statements)
        \<and> (raised (dashboard sess) = None \<longrightarrow>
             statements (dashboard sess) = statements start @ all_statements)"
    unfolding issues_def dashboard_def by blast
  with s0 show "prefix (statements (dashboard sess)) all_statements"
    and "raised (dashboard sess) = None \<Longrightarrow> statements (dashboard sess) = all_statements"
    by simp_all
qed

section \<open>The drift status callout\<close>

text \<open>
  C1. When the latest-drift statement returns a row whose status is a string, the right
  drift column gets exactly one callout after the statement: a success callout for
  \<open>NORMAL\<close> and \<open>BASELINE\<close>, a warning callout for \<open>WARNING\<close>, and an error callout for
  \<open>CRITICAL\<close> and every other string. Nothing is raised.
\<close>

theorem drift_status_mapping:
  assumes "sess latest_drift_sql = Inr (x # xs)"
    and "map_of x ''DRIFT_STATUS'' = Some (CStr s)"
  shows "trace (drift_status sess r) =
           trace r @
           [Sql latest_drift_sql,
            Render (DriftCol 2)
              (if s = ''NORMAL'' \<or> s = ''BASELINE'' then Success (success_text (CStr s))
               else if s = ''WARNING'' then Warning (warning_text (CStr s))
               else Error (error_text (CStr s)))]
         \<and> raised (drift_status sess r) = raised r"
  using assms by (simp add: drift_status_row)

theorem drift_status_mapping_witness:
  "trace (drift_status (answering [[(''DRIFT_STATUS'', CStr ''NORMAL'')]]) start) =
     [Sql latest_drift_sql, Render (DriftCol 2) (Success (success_text (CStr ''NORMAL'')))]
   \<and> trace (drift_status (answering [[(''DRIFT_STATUS'', CStr ''BASELINE'')]]) start) =
     [Sql latest_drift_sql, Render (DriftCol 2) (Success (success_text (CStr ''BASELINE'')))]
   \<and> trace (drift_status (answering [[(''DRIFT_STATUS'', CStr ''WARNING'')]]) start) =
     [Sql latest_drift_sql, Render (DriftCol 2) (Warning (warning_text (CStr ''WARNING'')))]
   \<and> trace (drift_status (answering [[(''DRIFT_STATUS'', CStr ''CRITICAL'')]]) start) =
     [Sql latest_drift_sql, Render (DriftCol 2) (Error (error_text (CStr ''CRITICAL'')))]
   \<and> trace (drift_status (answering [[(''DRIFT_STATUS'', CStr ''normal'')]]) start) =
     [Sql latest_drift_sql, Render (DriftCol 2) (Error (error_text (CStr ''normal'')))]"
  using
    drift_status_mapping [of "answering [[(''DRIFT_STATUS'', CStr ''NORMAL'')]]"
      "[(''DRIFT_STATUS'', CStr ''NORMAL'')]" "[]" "''NORMAL''" start]
    drift_status_mapping [of "answering [[(''DRIFT_STATUS'', CStr ''BASELINE'')]]"
      "[(''DRIFT_STATUS'', CStr ''BASELINE'')]" "[]" "''BASELINE''" start]
    drift_status_mapping [of "answering [[(''DRIFT_STATUS'', CStr ''WARNING'')]]"
      "[(''DRIFT_STATUS'', CStr ''WARNING'')]" "[]" "''WARNING''" start]
    drift_status_mapping [of "answering [[(''DRIFT_STATUS'', CStr ''CRITICAL'')]]"
      "[(''DRIFT_STATUS'', CStr ''CRITICAL'')]" "[]" "''CRITICAL''" start]
    drift_status_mapping [of "answering [[(''DRIFT_STATUS'', CStr ''normal'')]]"
      "[(''DRIFT_STATUS'', CStr ''normal'')]" "[]" "''normal''" start]
  by (simp add: answering_def start_def)

text \<open>
  C7. When the latest-drift statement returns the status \<open>WARNING\<close>, the callout is a
  warning callout and its text ends with the word \<open>WARNING\<close>.
\<close>

theorem warning_callout:
  assumes "sess latest_drift_sql = Inr (x # xs)"
    and "map_of x ''DRIFT_STATUS'' = Some (CStr ''WARNING'')"
  shows "trace (drift_status sess r) =
           trace r @
           [Sql latest_drift_sql,
            Render (DriftCol 2)
              (Warning ([CHR 0xE2, CHR 0x9A, CHR 0xA0, CHR 0xEF, CHR 0xB8, CHR 0x8F] @
                        '' Drift Status: '' @ ''WARNING''))]"
  using assms by (simp add: drift_status_row warning_text_def py_str_def)

theorem warning_callout_witness:
  "demo_session latest_drift_sql = Inr [[(''DRIFT_STATUS'', CStr ''WARNING'')]]
   \<and> trace (drift_status demo_session start) =
     [Sql latest_drift_sql,
      Render (DriftCol 2)
        (Warning ([CHR 0xE2, CHR 0x9A, CHR 0xA0, CHR 0xEF, CHR 0xB8, CHR 0x8F] @
                  '' Drift Status: '' @ ''WARNING''))]"
proof -
  have q: "demo_session latest_drift_sql = Inr [[(''DRIFT_STATUS'', CStr ''WARNING'')]]"
    by (simp add: demo_session_def raw_count_sql_def prod_model_sql_def feature_count_sql_def
        latest_drift_sql_def)
  show ?thesis
    using q warning_callout [of demo_session "[(''DRIFT_STATUS'', CStr ''WARNING'')]" "[]" start]
    by (simp add: start_def)
qed

section \<open>The KPI row\<close>

text \<open>
  The three numbers of the spec's scenarios as grouped numerals, an MAE above \<open>2 ^ 53\<close>
  that the conversion to a float rounds, texts that are not grouped numerals, and what the
  two KPI steps render from a first row with integer cells.
\<close>

lemma grouped_mae: "grouped 1234567 = ''1,234,567''"
  by (simp add: grouped_def digits.simps group3.simps)

lemma grouped_raw: "grouped 2500000 = ''2,500,000''"
  by (simp add: grouped_def digits.simps group3.simps)

lemma grouped_features: "grouped 48000 = ''48,000''"
  by (simp add: grouped_def digits.simps group3.simps)

lemma format_above_53: "format_comma_0f (CInt (2 ^ 53 + 1)) = Inr ''9,007,199,254,740,992''"
  by (simp add: format_comma_0f_def int_to_float_def and_then_def grouped_def Let_def
      digits.simps group3.simps bit_length.simps)

lemma shows_number_rejects:
  "\<not> shows_number ''1234567'' 1234567"
  "\<not> shows_number ''1,234,567.0'' 1234567"
  "\<not> shows_number ''1,234,568'' 1234567"
  "\<not> shows_number ''N/A'' 0"
  "\<not> shows_number [] 0"
  by (simp_all add: shows_number_def Let_def read_decimal_def digit_value_def)

lemma shows_number_rejects_misplaced: "\<not> shows_number ''12,34,567'' 1234567"
proof
  assume "shows_number ''12,34,567'' 1234567"
  then have "\<forall>k<9. (rev ''12,34,567'' ! k = CHR '','') = (k mod 4 = 3)"
    by (simp add: shows_number_def Let_def)
  then have "(6::nat) < 9 \<longrightarrow> (rev ''12,34,567'' ! 6 = CHR '','') = ((6::nat) mod 4 = 3)"
    by (rule spec)
  then show False by simp
qed

lemma production_model_row:
  assumes "sess prod_model_sql = Inr (x # xs)"
    and "map_of x ''MODEL_VERSION'' = Some v"
    and "map_of x ''MAE'' = Some (CInt n)" and "\<bar>n\<bar> < 2 ^ 53"
  shows "trace (production_model sess r) =
           trace r @
           [Sql prod_model_sql,
            Render (KpiCol 1) (Metric production_model_label v),
            Render (KpiCol 2) (Metric mae_label (CStr (grouped n)))]"
  using assms
  by (simp add: production_model_def block_defs format_comma_0f_exact)

lemma data_counts_rows:
  assumes "sess raw_count_sql = Inr (x # xs)" and "map_of x ''CNT'' = Some (CInt n)"
    and "sess feature_count_sql = Inr (y # ys)" and "map_of y ''CNT'' = Some (CInt m)"
  shows "trace (data_counts sess r) =
           trace r @
           [Sql raw_count_sql, Sql feature_count_sql,
            Render (KpiCol 3) (Metric raw_records_label (CStr (grouped n))),
            Render (KpiCol 4) (Metric features_label (CStr (grouped m)))]"
    and "raised (data_counts sess r) = raised r"
  using assms
  by (simp_all add: data_counts_def block_defs format_comma_def)

text \<open>
  C5. When the production-model statement returns no rows, the first KPI column shows the
  Production Model metric with the string \<open>None\<close> and the second shows the MAE metric with
  the string \<open>N/A\<close>.
\<close>

theorem production_model_empty:
  assumes "sess prod_model_sql = Inr []" and "raised r = None"
  shows "trace (production_model sess r) =
           trace r @
           [Sql prod_model_sql,
            Render (KpiCol 1) (Metric production_model_label (CStr ''None'')),
            Render (KpiCol 2) (Metric mae_label (CStr ''N/A''))]
         \<and> raised (production_model sess r) = None"
  using assms by (simp add: production_model_def collect_def)

theorem production_model_empty_witness:
  "trace (production_model (answering []) start) =
     [Sql prod_model_sql,
      Render (KpiCol 1) (Metric production_model_label (CStr ''None'')),
      Render (KpiCol 2) (Metric mae_label (CStr ''N/A''))]
   \<and> raised (production_model (answering []) start) = None"
  using production_model_empty [of "answering []" start]
  by (simp add: answering_def start_def)

text \<open>
  C6. Numbers in the KPI row are shown with thousands separators and zero decimal places.
  For every integer \<open>n\<close>, the count format \<open>f"{n:,}"\<close> gives \<open>grouped n\<close>, the MAE format
  \<open>f"{n:,.0f}"\<close> gives the same text whenever \<open>\<bar>n\<bar> < 2 ^ 53\<close>, and \<open>grouped n\<close> is the grouped
  numeral of \<open>n\<close>: digits and commas only, a comma before every group of three digits from
  the right, the digits spelling \<open>\<bar>n\<bar>\<close>, a minus sign in front of a negative number. The
  production-model step renders this text for the MAE of the first row and the count step
  renders it for the two counts. In particular an MAE of 1234567 is shown as \<open>1,234,567\<close>, a
  raw-record count of 2500000 as \<open>2,500,000\<close> and a feature count of 48000 as \<open>48,000\<close>.
\<close>

theorem kpi_number_format:
  "format_comma (CInt n) = Inr (grouped n)
   \<and> (\<bar>n\<bar> < 2 ^ 53 \<longrightarrow> format_comma_0f (CInt n) = Inr (grouped n))
   \<and> shows_number (grouped n) n
   \<and> (sess prod_model_sql = Inr (x # xs) \<and> map_of x ''MODEL_VERSION'' = Some v
        \<and> map_of x ''MAE'' = Some (CInt n) \<and> \<bar>n\<bar> < 2 ^ 53 \<longrightarrow>
      trace (production_model sess r) =
        trace r @
        [Sql prod_model_sql,
         Render (KpiCol 1) (Metric production_model_label v),
         Render (KpiCol 2) (Metric mae_label (CStr (grouped n)))])
   \<and> (sess raw_count_sql = Inr (y # ys) \<and> map_of y ''CNT'' = Some (CInt n)
        \<and> sess feature_count_sql = Inr (z # zs) \<and> map_of z ''CNT'' = Some (CInt m) \<longrightarrow>
      trace (data_counts sess r) =
        trace r @
        [Sql raw_count_sql, Sql feature_count_sql,
         Render (KpiCol 3) (Metric raw_records_label (CStr (grouped n))),
         Render (KpiCol 4) (Metric features_label (CStr (grouped m)))]
      \<and> shows_number (grouped m) m)
   \<and> format_comma_0f (CInt 1234567) = Inr ''1,234,567''
   \<and> format_comma (CInt 2500000) = Inr ''2,500,000''
   \<and> format_comma (CInt 48000) = Inr ''48,000''
   \<and> format_comma_0f (CInt (2 ^ 53 + 1)) = Inr ''9,007,199,254,740,992''
   \<and> trace (production_model demo_session start) =
       [Sql prod_model_sql,
        Render (KpiCol 1) (Metric production_model_label (CStr ''v3'')),
        Render (KpiCol 2) (Metric mae_label (CStr ''1,234,567''))]
   \<and> trace (data_counts demo_session start) =
       [Sql raw_count_sql, Sql feature_count_sql,
        Render (KpiCol 3) (Metric raw_records_label (CStr ''2,500,000'')),
        Render (KpiCol 4) (Metric features_label (CStr ''48,000''))]"
proof -
  have general: "format_comma (CInt n) = Inr (grouped n)"
    by (simp add: format_comma_def)
  have p: "trace (production_model demo_session start) =
       [Sql prod_model_sql,
        Render (KpiCol 1) (Metric production_model_label (CStr ''v3'')),
        Render (KpiCol 2) (Metric mae_label (CStr ''1,234,567''))]"
    by (simp add: production_model_def collect_def eval_def and_then_def first_row_def
        getitem_def demo_prod_model format_mae start_def)
  have d: "trace (data_counts demo_session start) =
       [Sql raw_count_sql, Sql feature_count_sql,
        Render (KpiCol 3) (Metric raw_records_label (CStr ''2,500,000'')),
        Render (KpiCol 4) (Metric features_label (CStr ''48,000''))]"
    by (simp add: data_counts_def collect_def eval_def and_then_def first_row_def
        getitem_def demo_raw_count demo_feature_count format_raw format_features start_def)
  show ?thesis
    using general p d format_mae format_raw format_features format_above_53
      format_comma_0f_exact [of n] shows_number_grouped [of n] shows_number_grouped [of m]
      production_model_row [of sess x xs v n r] data_counts_rows(1) [of sess y ys n z zs m r]
    by simp
qed

theorem kpi_number_format_witness:
  "format_comma_0f (CInt 1234567) = Inr ''1,234,567''
   \<and> shows_number ''1,234,567'' 1234567
   \<and> shows_number ''2,500,000'' 2500000
   \<and> shows_number ''48,000'' 48000
   \<and> trace (production_model demo_session start) =
       [Sql prod_model_sql,
        Render (KpiCol 1) (Metric production_model_label (CStr ''v3'')),
        Render (KpiCol 2) (Metric mae_label (CStr ''1,234,567''))]
   \<and> trace (data_counts demo_session start) =
       [Sql raw_count_sql, Sql feature_count_sql,
        Render (KpiCol 3) (Metric raw_records_label (CStr ''2,500,000'')),
        Render (KpiCol 4) (Metric features_label (CStr ''48,000''))]"
  using
    kpi_number_format [of 1234567 demo_session
      "[(''MODEL_VERSION'', CStr ''v3''), (''MAE'', CInt 1234567),
        (''TRAINING_DATE'', CStr ''2024-05-01'')]" "[]" "CStr ''v3''" start]
    kpi_number_format [of 2500000 demo_session _ _ _ start
      "[(''CNT'', CInt 2500000)]" "[]" "[(''CNT'', CInt 48000)]" "[]" 48000]
    demo_prod_model demo_raw_count demo_feature_count
    grouped_mae grouped_raw grouped_features
  by (simp add: start_def)

text \<open>
  C10. The raw-records and features metrics index the first row of their \<open>COUNT(*)\<close>
  results with no branch for an empty result. When the raw count returns no rows the pass
  ends with IndexError right after that statement; when the raw count has a row and the
  feature count returns none it ends with IndexError right after the second statement; in
  both cases no metric is rendered. When both first rows carry an integer \<open>CNT\<close>, the two
  metrics show the grouped numerals of these integers. The step ends without an exception
  only if both statements returned at least one row. Every metric the step renders, whatever
  the session answers, shows the grouped numeral of the integer \<open>CNT\<close> of a first row, never
  a stand-in text.
\<close>

theorem data_counts_first_row_unguarded:
  "(sess raw_count_sql = Inr [] \<longrightarrow>
      data_counts sess r = raise IndexError (r\<lparr>trace := trace r @ [Sql raw_count_sql]\<rparr>))
   \<and> (sess raw_count_sql = Inr (x # xs) \<and> map_of x ''CNT'' = Some c
        \<and> sess feature_count_sql = Inr [] \<longrightarrow>
      data_counts sess r =
        raise IndexError (r\<lparr>trace := trace r @ [Sql raw_count_sql, Sql feature_count_sql]\<rparr>))
   \<and> (sess raw_count_sql = Inr (x # xs) \<and> map_of x ''CNT'' = Some (CInt n)
        \<and> sess feature_count_sql = Inr (y # ys) \<and> map_of y ''CNT'' = Some (CInt m) \<longrightarrow>
      trace (data_counts sess r) =
        trace r @
        [Sql raw_count_sql, Sql feature_count_sql,
         Render (KpiCol 3) (Metric raw_records_label (CStr (grouped n))),
         Render (KpiCol 4) (Metric features_label (CStr (grouped m)))]
      \<and> shows_number (grouped n) n \<and> shows_number (grouped m) m
      \<and> raised (data_counts sess r) = raised r)
   \<and> (raised (data_counts sess r) = None \<longrightarrow>
        (\<exists>x' xs' y' ys'. sess raw_count_sql = Inr (x' # xs')
           \<and> sess feature_count_sql = Inr (y' # ys')))
   \<and> (\<exists>ext. trace (data_counts sess r) = trace r @ ext
        \<and> (\<forall>k l v. Render k (Metric l v) \<in> set ext \<longrightarrow>
             (\<exists>s i row rows. v = CStr s \<and> shows_number s i
                \<and> map_of row ''CNT'' = Some (CInt i)
                \<and> (sess raw_count_sql = Inr (row # rows)
                     \<or> sess feature_count_sql = Inr (row # rows)))))"
proof (intro conjI impI)
  assume "sess raw_count_sql = Inr []"
  then show "data_counts sess r = raise IndexError (r\<lparr>trace := trace r @ [Sql raw_count_sql]\<rparr>)"
    by (simp add: data_counts_def block_defs)
next
  assume "sess raw_count_sql = Inr (x # xs) \<and> map_of x ''CNT'' = Some c
        \<and> sess feature_count_sql = Inr []"
  then show "data_counts sess r =
        raise IndexError (r\<lparr>trace := trace r @ [Sql raw_count_sql, Sql feature_count_sql]\<rparr>)"
    by (simp add: data_counts_def block_defs)
next
  assume a: "sess raw_count_sql = Inr (x # xs) \<and> map_of x ''CNT'' = Some (CInt n)
        \<and> sess feature_count_sql = Inr (y # ys) \<and> map_of y ''CNT'' = Some (CInt m)"
  then show "trace (data_counts sess r) =
        trace r @
        [Sql raw_count_sql, Sql feature_count_sql,
         Render (KpiCol 3) (Metric raw_records_label (CStr (grouped n))),
         Render (KpiCol 4) (Metric features_label (CStr (grouped m)))]"
    by (simp add: data_counts_rows)
  show "shows_number (grouped n) n" by (rule shows_number_grouped)
  show "shows_number (grouped m) m" by (rule shows_number_grouped)
  from a show "raised (data_counts sess r) = raised r"
    by (simp add: data_counts_rows)
next
  assume "raised (data_counts sess r) = None"
  then show "\<exists>x' xs' y' ys'. sess raw_count_sql = Inr (x' # xs')
           \<and> sess feature_count_sql = Inr (y' # ys')"
    by (auto simp: data_counts_def block_defs split: sum.splits list.splits option.splits)
next
  show "\<exists>ext. trace (data_counts sess r) = trace r @ ext
        \<and> (\<forall>k l v. Render k (Metric l v) \<in> set ext \<longrightarrow>
             (\<exists>s i row rows. v = CStr s \<and> shows_number s i
                \<and> map_of row ''CNT'' = Some (CInt i)
                \<and> (sess raw_count_sql = Inr (row # rows)
                     \<or> sess feature_count_sql = Inr (row # rows))))"
    by (auto simp: data_counts_def block_defs dest!: format_comma_Inr
        split: sum.splits list.splits option.splits)
      (blast intro: shows_number_grouped)+
qed

theorem data_counts_first_row_unguarded_witness:
  "data_counts (answering []) start = raise IndexError (start\<lparr>trace := [Sql raw_count_sql]\<rparr>)
   \<and> trace (data_counts (answering [[(''CNT'', CInt 48000)]]) start) =
       [Sql raw_count_sql, Sql feature_count_sql,
        Render (KpiCol 3) (Metric raw_records_label (CStr ''48,000'')),
        Render (KpiCol 4) (Metric features_label (CStr ''48,000''))]
   \<and> shows_number ''48,000'' 48000
   \<and> raised (data_counts (answering [[(''CNT'', CInt 48000)]]) start) = None"
  using data_counts_first_row_unguarded [of "answering []" start]
    data_counts_first_row_unguarded [of "answering [[(''CNT'', CInt 48000)]]" start
      "[(''CNT'', CInt 48000)]" "[]" _ 48000 "[(''CNT'', CInt 48000)]" "[]" 48000]
    grouped_features
  by (simp add: answering_def start_def)

section \<open>The tables\<close>

text \<open>
  C4. For each of the five tabular panels (model history, drift metrics, model comparison,
  pipeline runs, data load triggers), when its statement returns between 1 and 10 rows the
  panel shows one table holding exactly the rows returned, in the order returned and
  unchanged.
\<close>

theorem tables_shown_as_fetched:
  assumes "raised r = None" and "1 \<le> length df" and "length df \<le> 10"
  shows
    "(sess model_df_sql = Inr df \<longrightarrow>
        trace (model_history sess r) =
          trace r @ [Render Page (Subheader model_history_title), Sql model_df_sql,
                     Render Page (Dataframe df True)]
        \<and> raised (model_history sess r) = None)
     \<and> (sess drift_df_sql = Inr df \<longrightarrow>
        trace (drift_table sess r) =
          trace r @ [Sql drift_df_sql, Render (DriftCol 1) (Dataframe df True)]
        \<and> raised (drift_table sess r) = None)
     \<and> (sess comparison_df_sql = Inr df \<longrightarrow>
        trace (comparison_log sess r) =
          trace r @ [Render Page (Markdown ''---''), Render Page (Subheader comparison_title),
                     Sql comparison_df_sql, Render Page (Dataframe df True)]
        \<and> raised (comparison_log sess r) = None)
     \<and> (sess runs_df_sql = Inr df \<longrightarrow>
        trace (pipeline_runs sess r) =
          trace r @ [Render Page (Markdown ''---''), Render Page (Subheader runs_title),
                     Sql runs_df_sql, Render Page (Dataframe df True)]
        \<and> raised (pipeline_runs sess r) = None)
     \<and> (sess log_df_sql = Inr df \<longrightarrow>
        trace (stream_data_log sess r) =
          trace r @ [Render Page (Markdown ''---''), Render Page (Subheader triggers_title),
                     Sql log_df_sql, Render Page (Dataframe df True)]
        \<and> raised (stream_data_log sess r) = None)"
proof -
  from assms have "df \<noteq> []" by auto
  with assms(1) show ?thesis
    by (simp add: model_history_def drift_table_def comparison_log_def pipeline_runs_def
        stream_data_log_def to_pandas_def)
qed

theorem tables_shown_as_fetched_witness:
  "trace (model_history (answering two_rows) start) =
     [Render Page (Subheader model_history_title), Sql model_df_sql,
      Render Page (Dataframe two_rows True)]
   \<and> trace (drift_table (answering two_rows) start) =
     [Sql drift_df_sql, Render (DriftCol 1) (Dataframe two_rows True)]
   \<and> trace (comparison_log (answering two_rows) start) =
     [Render Page (Markdown ''---''), Render Page (Subheader comparison_title),
      Sql comparison_df_sql, Render Page (Dataframe two_rows True)]
   \<and> trace (pipeline_runs (answering two_rows) start) =
     [Render Page (Markdown ''---''), Render Page (Subheader runs_title),
      Sql runs_df_sql, Render Page (Dataframe two_rows True)]
   \<and> trace (stream_data_log (answering two_rows) start) =
     [Render Page (Markdown ''---''), Render Page (Subheader triggers_title),
      Sql log_df_sql, Render Page (Dataframe two_rows True)]
   \<and> length two_rows = 2"
  using tables_shown_as_fetched [of start two_rows "answering two_rows"]
  by (simp add: answering_def start_def two_rows_def)

text \<open>
  C3, amended. For the six panels model history, drift metrics, latest drift status, model
  comparison, pipeline runs and data load triggers, when the panel's statement returns no
  rows the panel shows exactly its informational placeholder, and neither a table nor a
  callout of another kind. The production-model panel and the two count metrics are
  excepted.
\<close>

theorem empty_tables_placeholder:
  assumes "raised r = None"
  shows
    "(sess model_df_sql = Inr [] \<longrightarrow>
        trace (model_history sess r) =
          trace r @ [Render Page (Subheader model_history_title), Sql model_df_sql,
                     Render Page (Info ''No models trained yet'')]
        \<and> raised (model_history sess r) = None)
     \<and> (sess drift_df_sql = Inr [] \<longrightarrow>
        trace (drift_table sess r) =
          trace r @ [Sql drift_df_sql, Render (DriftCol 1) (Info ''No drift data yet'')]
        \<and> raised (drift_table sess r) = None)
     \<and> (sess latest_drift_sql = Inr [] \<longrightarrow>
        trace (drift_status sess r) =
          trace r @ [Sql latest_drift_sql, Render (DriftCol 2) (Info ''No drift data'')]
        \<and> raised (drift_status sess r) = None)
     \<and> (sess comparison_df_sql = Inr [] \<longrightarrow>
        trace (comparison_log sess r) =
          trace r @ [Render Page (Markdown ''---''), Render Page (Subheader comparison_title),
                     Sql comparison_df_sql, Render Page (Info ''No comparisons logged yet'')]
        \<and> raised (comparison_log sess r) = None)
     \<and> (sess runs_df_sql = Inr [] \<longrightarrow>
        trace (pipeline_runs sess r) =
          trace r @ [Render Page (Markdown ''---''), Render Page (Subheader runs_title),
                     Sql runs_df_sql, Render Page (Info ''No pipeline runs yet'')]
        \<and> raised (pipeline_runs sess r) = None)
     \<and> (sess log_df_sql = Inr [] \<longrightarrow>
        trace (stream_data_log sess r) =
          trace r @ [Render Page (Markdown ''---''), Render Page (Subheader triggers_title),
                     Sql log_df_sql, Render Page (Info ''No data load triggers yet'')]
        \<and> raised (stream_data_log sess r) = None)"
  using assms
  by (simp add: model_history_def drift_table_def drift_status_def comparison_log_def
      pipeline_runs_def stream_data_log_def to_pandas_def collect_def)

theorem empty_tables_placeholder_witness:
  "trace (model_history (answering []) start) =
     [Render Page (Subheader model_history_title), Sql model_df_sql,
      Render Page (Info ''No models trained yet'')]
   \<and> trace (drift_table (answering []) start) =
     [Sql drift_df_sql, Render (DriftCol 1) (Info ''No drift data yet'')]
   \<and> trace (drift_status (answering []) start) =
     [Sql latest_drift_sql, Render (DriftCol 2) (Info ''No drift data'')]
   \<and> trace (comparison_log (answering []) start) =
     [Render Page (Markdown ''---''), Render Page (Subheader comparison_title),
      Sql comparison_df_sql, Render Page (Info ''No comparisons logged yet'')]
   \<and> trace (pipeline_runs (answering []) start) =
     [Render Page (Markdown ''---''), Render Page (Subheader runs_title),
      Sql runs_df_sql, Render Page (Info ''No pipeline runs yet'')]
   \<and> trace (stream_data_log (answering []) start) =
     [Render Page (Markdown ''---''), Render Page (Subheader triggers_title),
      Sql log_df_sql, Render Page (Info ''No data load triggers yet'')]"
  using empty_tables_placeholder [of start "answering []"]
  by (simp add: answering_def start_def)

text \<open>
  C3 as stated, for every panel, fails on the KPI row. With every statement returning no
  rows, the production-model panel renders two metric widgets (with the stand-in values
  \<open>None\<close> and \<open>N/A\<close>) and no informational placeholder, and the count metrics end the pass
  with IndexError.
\<close>

theorem empty_panels_counterexample:
  "trace (production_model (answering []) start) =
     [Sql prod_model_sql,
      Render (KpiCol 1) (Metric production_model_label (CStr ''None'')),
      Render (KpiCol 2) (Metric mae_label (CStr ''N/A''))]
   \<and> trace (data_counts (answering []) start) = [Sql raw_count_sql]
   \<and> raised (data_counts (answering []) start) = Some IndexError"
  by (simp add: production_model_def data_counts_def block_defs answering_def start_def)

section \<open>The whole pass\<close>

text \<open>
  C8. No failure of a statement is caught. In every pass, if a statement that the pass
  sends fails, its exception is the one the pass ends with, and sending that statement is
  the last thing the pass does: nothing of the same panel or of a later panel is rendered
  after it.
\<close>

theorem query_failure_ends_pass:
  assumes "sess q = Inl e" and "Sql q \<in> set (trace (dashboard sess))"
  shows "raised (dashboard sess) = Some e \<and> last (trace (dashboard sess)) = Sql q"
proof (cases "raised (dashboard sess)")
  case None
  with unbroken_dashboard [of sess] assms show ?thesis
    by (auto simp: unbroken_def)
next
  case (Some e0)
  with unbroken_dashboard [of sess] assms show ?thesis
    by (auto simp: unbroken_def)
qed

theorem query_failure_ends_pass_witness:
  "broken_session model_df_sql = Inl (SqlError ''warehouse suspended'')
   \<and> Sql model_df_sql \<in> set (trace (dashboard broken_session))
   \<and> raised (dashboard broken_session) = Some (SqlError ''warehouse suspended'')
   \<and> last (trace (dashboard broken_session)) = Sql model_df_sql"
proof -
  have f: "broken_session model_df_sql = Inl (SqlError ''warehouse suspended'')"
    by (rule broken_rows)
  have i: "Sql model_df_sql \<in> set (trace (dashboard broken_session))"
    by (simp add: broken_dashboard)
  from query_failure_ends_pass [OF f i] f i show ?thesis by simp
qed

text \<open>
  C9. The pass only reads. In every pass, each statement sent is one of the nine literals of
  the script and starts with \<open>SELECT\<close>, and each table shown is, unchanged, the rows the
  session returned for a statement sent in that pass.
\<close>

theorem warehouse_only_read:
  "(\<forall>q. Sql q \<in> set (trace (dashboard sess)) \<longrightarrow>
        q \<in> set all_statements \<and> verb q = Some ''SELECT'')
   \<and> (\<forall>c df w. Render c (Dataframe df w) \<in> set (trace (dashboard sess)) \<longrightarrow>
        (\<exists>q. Sql q \<in> set (trace (dashboard sess)) \<and> sess q = Inr df))"
  using read_only_dashboard [of sess]
  by (auto simp: read_only_def fetched_by_def all_select)

theorem warehouse_only_read_witness:
  "Sql runs_df_sql \<in> set (trace (dashboard demo_session))
   \<and> runs_df_sql \<in> set all_statements
   \<and> verb runs_df_sql = Some ''SELECT''
   \<and> (\<exists>q. Sql q \<in> set (trace (dashboard demo_session))
         \<and> demo_session q =
             Inr [[(''RUN_TIME'', CStr ''2024-05-02''), (''PHASE'', CStr ''TRAIN''),
                   (''STATUS'', CStr ''SUCCESS''), (''RECORDS_PROCESSED'', CInt 1200)],
                  [(''RUN_TIME'', CStr ''2024-05-01''), (''PHASE'', CStr ''INGEST''),
                   (''STATUS'', CStr ''SUCCESS''), (''RECORDS_PROCESSED'', CInt 900)]])"
proof -
  have s: "Sql runs_df_sql \<in> set (trace (dashboard demo_session))"
    by (simp add: demo_dashboard)
  have d: "Render Page
             (Dataframe
                [[(''RUN_TIME'', CStr ''2024-05-02''), (''PHASE'', CStr ''TRAIN''),
                  (''STATUS'', CStr ''SUCCESS''), (''RECORDS_PROCESSED'', CInt 1200)],
                 [(''RUN_TIME'', CStr ''2024-05-01''), (''PHASE'', CStr ''INGEST''),
                  (''STATUS'', CStr ''SUCCESS''), (''RECORDS_PROCESSED'', CInt 900)]]
                True)
           \<in> set (trace (dashboard demo_session))"
    by (simp add: demo_dashboard)
  from warehouse_only_read [of demo_session] s d show ?thesis by blast
qed

text \<open>
  C2, amended. The script has nine fixed statements, not seven, all different and all
  \<open>SELECT\<close>, against seven tables. A pass that completes sends exactly these nine in source
  order, whatever the session answers, and any pass sends an initial part of them. The six
  panel statements are ordered by a timestamp column descending and capped at 1 or 10 rows;
  the production-model statement is capped at 1 row and has no \<open>ORDER BY\<close>; the two
  \<open>COUNT(*)\<close> statements have neither \<open>ORDER BY\<close> nor \<open>LIMIT\<close>.
\<close>

theorem nine_fixed_selects:
  "prefix (statements (dashboard sess)) all_statements
   \<and> (raised (dashboard sess) = None \<longrightarrow> statements (dashboard sess) = all_statements)
   \<and> all_statements =
       [prod_model_sql, raw_count_sql, feature_count_sql, model_df_sql, drift_df_sql,
        latest_drift_sql, comparison_df_sql, runs_df_sql, log_df_sql]
   \<and> distinct all_statements
   \<and> map verb all_statements = replicate 9 (Some ''SELECT'')
   \<and> map from_table all_statements =
       [Some ''MLOPS_PROD_DB.MODELS.MODEL_REGISTRY'',
        Some ''MLOPS_PROD_DB.RAW.RAW_SALES'',
        Some ''MLOPS_PROD_DB.FEATURES.FEATURE_STORE'',
        Some ''MLOPS_PROD_DB.MODELS.MODEL_REGISTRY'',
        Some ''MLOPS_PROD_DB.MONITORING.DRIFT_METRICS'',
        Some ''MLOPS_PROD_DB.MONITORING.DRIFT_METRICS'',
        Some ''MLOPS_PROD_DB.MODELS.MODEL_COMPARISON_LOG'',
        Some ''MLOPS_PROD_DB.MONITORING.PIPELINE_RUNS'',
        Some ''MLOPS_PROD_DB.MONITORING.PIPELINE_RUN_LOG'']
   \<and> length (remdups (map from_table all_statements)) = 7
   \<and> map order_by all_statements =
       [None, None, None,
        Some (''TRAINING_DATE'', ''DESC''),
        Some (''CHECK_DATE'', ''DESC''),
        Some (''CHECK_DATE'', ''DESC''),
        Some (''COMPARISON_DATE'', ''DESC''),
        Some (''RUN_TIME'', ''DESC''),
        Some (''RUN_TIME'', ''DESC'')]
   \<and> map limit all_statements =
       [Some ''1'', None, None, Some ''10'', Some ''10'', Some ''1'', Some ''10'',
        Some ''10'', Some ''10'']"
proof -
  have tables: "map from_table all_statements =
       [Some ''MLOPS_PROD_DB.MODELS.MODEL_REGISTRY'',
        Some ''MLOPS_PROD_DB.RAW.RAW_SALES'',
        Some ''MLOPS_PROD_DB.FEATURES.FEATURE_STORE'',
        Some ''MLOPS_PROD_DB.MODELS.MODEL_REGISTRY'',
        Some ''MLOPS_PROD_DB.MONITORING.DRIFT_METRICS'',
        Some ''MLOPS_PROD_DB.MONITORING.DRIFT_METRICS'',
        Some ''MLOPS_PROD_DB.MODELS.MODEL_COMPARISON_LOG'',
        Some ''MLOPS_PROD_DB.MONITORING.PIPELINE_RUNS'',
        Some ''MLOPS_PROD_DB.MONITORING.PIPELINE_RUN_LOG'']"
    by (simp add: all_statements_def from_table_def words_of)
  have seven: "length (remdups (map from_table all_statements)) = 7"
    unfolding tables by simp
  have verbs: "map verb all_statements = replicate 9 (Some ''SELECT'')"
    by (simp add: all_statements_def verb_def words_of numeral_eq_Suc)
  have orders: "map order_by all_statements =
       [None, None, None,
        Some (''TRAINING_DATE'', ''DESC''),
        Some (''CHECK_DATE'', ''DESC''),
        Some (''CHECK_DATE'', ''DESC''),
        Some (''COMPARISON_DATE'', ''DESC''),
        Some (''RUN_TIME'', ''DESC''),
        Some (''RUN_TIME'', ''DESC'')]"
    by (simp add: all_statements_def order_by_def words_of)
  have limits: "map limit all_statements =
       [Some ''1'', None, None, Some ''10'', Some ''10'', Some ''1'', Some ''10'',
        Some ''10'', Some ''10'']"
    by (simp add: all_statements_def limit_def words_of)
  show ?thesis
    using statements_dashboard [of sess] distinct_statements tables seven verbs orders limits
    by (simp add: all_statements_def)
qed

theorem nine_fixed_selects_witness:
  "raised (dashboard demo_session) = None
   \<and> statements (dashboard demo_session) =
       [prod_model_sql, raw_count_sql, feature_count_sql, model_df_sql, drift_df_sql,
        latest_drift_sql, comparison_df_sql, runs_df_sql, log_df_sql]"
proof -
  have "raised (dashboard demo_session) = None"
    by (simp add: demo_dashboard)
  with nine_fixed_selects [of demo_session] show ?thesis by simp
qed

text \<open>
  C2 as stated fails: a completed pass sends nine statements, the production-model
  statement is not ordered, and the two count statements are neither ordered nor capped.
\<close>

theorem seven_statements_counterexample:
  "length (statements (dashboard demo_session)) = 9
   \<and> order_by prod_model_sql = None
   \<and> order_by raw_count_sql = None \<and> limit raw_count_sql = None
   \<and> order_by feature_count_sql = None \<and> limit feature_count_sql = None"
proof -
  have "raised (dashboard demo_session) = None"
    by (simp add: demo_dashboard)
  then have "statements (dashboard demo_session) = all_statements"
    by (rule statements_dashboard)
  then have "length (statements (dashboard demo_session)) = 9"
    by (simp add: all_statements_def)
  then show ?thesis
    by (simp add: order_by_def limit_def words_of)
qed

end
